theory Spec2Isabelle
  imports Main "HOL-Library.Word"
begin

unbundle bit_operations_syntax

text \<open>
  The shared-memory data publisher of osrm-backend: the layout of typed blocks bracketed by
  canaries (include/storage/shared_datatype.hpp), and the sizing pass, the populate pass
  and the publication protocol of src/storage/storage.cpp.
\<close>

section \<open>Blocks and the data layout (include/storage/shared_datatype.hpp)\<close>

text \<open>
  The target is an LP64 platform: \<open>std::size_t\<close>, \<open>uintptr_t\<close>, \<open>uint64_t\<close> and
  pointers are 64-bit words whose arithmetic wraps around; \<open>unsigned\<close> is a 32-bit word.
  Shared memory is a map from addresses to bytes (\<open>char\<close>).
\<close>

type_synonym addr = "64 word"
type_synonym memory = "addr \<Rightarrow> char"

text \<open>\<open>const constexpr char CANARY[4] = {'O', 'S', 'R', 'M'};\<close>\<close>

definition CANARY :: "char list" where
  "CANARY = [CHR ''O'', CHR ''S'', CHR ''R'', CHR ''M'']"

definition sizeof_CANARY :: "64 word" where
  "sizeof_CANARY = of_nat (length CANARY)"

text \<open>
  Modelled from the spec: the \<open>Block\<close> descriptor (storage/block.hpp is not among the
  sources): number of entries, byte size, entry size and entry alignment.
\<close>

record Block =
  num_entries :: "64 word"
  byte_size :: "64 word"
  entry_size :: "64 word"
  entry_align :: "64 word"

text \<open>
  \<open>enum BlockID\<close>: the identifiers are the numbers \<open>0 .. NUM_BLOCKS - 1\<close>; the code
  computes with them (\<open>CH_EDGE_FILTER_0 + index\<close>, \<open>for (i = 0; i < bid; i++)\<close>).
\<close>

type_synonym BlockID = nat

definition NAME_CHAR_DATA :: BlockID where [simp]: "NAME_CHAR_DATA = 0"
definition EDGE_BASED_NODE_DATA_LIST :: BlockID where [simp]: "EDGE_BASED_NODE_DATA_LIST = 1"
definition ANNOTATION_DATA_LIST :: BlockID where [simp]: "ANNOTATION_DATA_LIST = 2"
definition CH_GRAPH_NODE_LIST :: BlockID where [simp]: "CH_GRAPH_NODE_LIST = 3"
definition CH_GRAPH_EDGE_LIST :: BlockID where [simp]: "CH_GRAPH_EDGE_LIST = 4"
definition CH_EDGE_FILTER_0 :: BlockID where [simp]: "CH_EDGE_FILTER_0 = 5"
definition CH_EDGE_FILTER_3 :: BlockID where [simp]: "CH_EDGE_FILTER_3 = 8"
definition CH_EDGE_FILTER_4 :: BlockID where [simp]: "CH_EDGE_FILTER_4 = 9"
definition CH_EDGE_FILTER_5 :: BlockID where [simp]: "CH_EDGE_FILTER_5 = 10"
definition CH_EDGE_FILTER_6 :: BlockID where [simp]: "CH_EDGE_FILTER_6 = 11"
definition COORDINATE_LIST :: BlockID where [simp]: "COORDINATE_LIST = 13"
definition OSM_NODE_ID_LIST :: BlockID where [simp]: "OSM_NODE_ID_LIST = 14"
definition TURN_INSTRUCTION :: BlockID where [simp]: "TURN_INSTRUCTION = 15"
definition ENTRY_CLASSID :: BlockID where [simp]: "ENTRY_CLASSID = 16"
definition R_SEARCH_TREE :: BlockID where [simp]: "R_SEARCH_TREE = 17"
definition R_SEARCH_TREE_LEVELS :: BlockID where [simp]: "R_SEARCH_TREE_LEVELS = 18"
definition GEOMETRIES_INDEX :: BlockID where [simp]: "GEOMETRIES_INDEX = 19"
definition GEOMETRIES_NODE_LIST :: BlockID where [simp]: "GEOMETRIES_NODE_LIST = 20"
definition GEOMETRIES_FWD_WEIGHT_LIST :: BlockID where [simp]: "GEOMETRIES_FWD_WEIGHT_LIST = 21"
definition GEOMETRIES_REV_WEIGHT_LIST :: BlockID where [simp]: "GEOMETRIES_REV_WEIGHT_LIST = 22"
definition GEOMETRIES_FWD_DURATION_LIST :: BlockID where [simp]: "GEOMETRIES_FWD_DURATION_LIST = 23"
definition GEOMETRIES_REV_DURATION_LIST :: BlockID where [simp]: "GEOMETRIES_REV_DURATION_LIST = 24"
definition GEOMETRIES_FWD_DATASOURCES_LIST :: BlockID where [simp]: "GEOMETRIES_FWD_DATASOURCES_LIST = 25"
definition GEOMETRIES_REV_DATASOURCES_LIST :: BlockID where [simp]: "GEOMETRIES_REV_DATASOURCES_LIST = 26"
definition HSGR_CHECKSUM :: BlockID where [simp]: "HSGR_CHECKSUM = 27"
definition TIMESTAMP :: BlockID where [simp]: "TIMESTAMP = 28"
definition FILE_INDEX_PATH :: BlockID where [simp]: "FILE_INDEX_PATH = 29"
definition DATASOURCES_NAMES :: BlockID where [simp]: "DATASOURCES_NAMES = 30"
definition PROPERTIES :: BlockID where [simp]: "PROPERTIES = 31"
definition BEARING_CLASSID :: BlockID where [simp]: "BEARING_CLASSID = 32"
definition BEARING_OFFSETS :: BlockID where [simp]: "BEARING_OFFSETS = 33"
definition BEARING_BLOCKS :: BlockID where [simp]: "BEARING_BLOCKS = 34"
definition BEARING_VALUES :: BlockID where [simp]: "BEARING_VALUES = 35"
definition ENTRY_CLASS :: BlockID where [simp]: "ENTRY_CLASS = 36"
definition LANE_DATA_ID :: BlockID where [simp]: "LANE_DATA_ID = 37"
definition PRE_TURN_BEARING :: BlockID where [simp]: "PRE_TURN_BEARING = 38"
definition POST_TURN_BEARING :: BlockID where [simp]: "POST_TURN_BEARING = 39"
definition TURN_LANE_DATA :: BlockID where [simp]: "TURN_LANE_DATA = 40"
definition LANE_DESCRIPTION_OFFSETS :: BlockID where [simp]: "LANE_DESCRIPTION_OFFSETS = 41"
definition LANE_DESCRIPTION_MASKS :: BlockID where [simp]: "LANE_DESCRIPTION_MASKS = 42"
definition TURN_WEIGHT_PENALTIES :: BlockID where [simp]: "TURN_WEIGHT_PENALTIES = 43"
definition TURN_DURATION_PENALTIES :: BlockID where [simp]: "TURN_DURATION_PENALTIES = 44"
definition MLD_LEVEL_DATA :: BlockID where [simp]: "MLD_LEVEL_DATA = 45"
definition MLD_PARTITION :: BlockID where [simp]: "MLD_PARTITION = 46"
definition MLD_CELL_TO_CHILDREN :: BlockID where [simp]: "MLD_CELL_TO_CHILDREN = 47"
definition MLD_CELL_WEIGHTS_0 :: BlockID where [simp]: "MLD_CELL_WEIGHTS_0 = 48"
definition MLD_CELL_WEIGHTS_1 :: BlockID where [simp]: "MLD_CELL_WEIGHTS_1 = 49"
definition MLD_CELL_WEIGHTS_2 :: BlockID where [simp]: "MLD_CELL_WEIGHTS_2 = 50"
definition MLD_CELL_WEIGHTS_3 :: BlockID where [simp]: "MLD_CELL_WEIGHTS_3 = 51"
definition MLD_CELL_WEIGHTS_4 :: BlockID where [simp]: "MLD_CELL_WEIGHTS_4 = 52"
definition MLD_CELL_WEIGHTS_5 :: BlockID where [simp]: "MLD_CELL_WEIGHTS_5 = 53"
definition MLD_CELL_WEIGHTS_6 :: BlockID where [simp]: "MLD_CELL_WEIGHTS_6 = 54"
definition MLD_CELL_WEIGHTS_7 :: BlockID where [simp]: "MLD_CELL_WEIGHTS_7 = 55"
definition MLD_CELL_DURATIONS_0 :: BlockID where [simp]: "MLD_CELL_DURATIONS_0 = 56"
definition MLD_CELL_DURATIONS_1 :: BlockID where [simp]: "MLD_CELL_DURATIONS_1 = 57"
definition MLD_CELL_DURATIONS_2 :: BlockID where [simp]: "MLD_CELL_DURATIONS_2 = 58"
definition MLD_CELL_DURATIONS_3 :: BlockID where [simp]: "MLD_CELL_DURATIONS_3 = 59"
definition MLD_CELL_DURATIONS_4 :: BlockID where [simp]: "MLD_CELL_DURATIONS_4 = 60"
definition MLD_CELL_DURATIONS_5 :: BlockID where [simp]: "MLD_CELL_DURATIONS_5 = 61"
definition MLD_CELL_DURATIONS_6 :: BlockID where [simp]: "MLD_CELL_DURATIONS_6 = 62"
definition MLD_CELL_DURATIONS_7 :: BlockID where [simp]: "MLD_CELL_DURATIONS_7 = 63"
definition MLD_CELL_SOURCE_BOUNDARY :: BlockID where [simp]: "MLD_CELL_SOURCE_BOUNDARY = 64"
definition MLD_CELL_DESTINATION_BOUNDARY :: BlockID where [simp]: "MLD_CELL_DESTINATION_BOUNDARY = 65"
definition MLD_CELLS :: BlockID where [simp]: "MLD_CELLS = 66"
definition MLD_CELL_LEVEL_OFFSETS :: BlockID where [simp]: "MLD_CELL_LEVEL_OFFSETS = 67"
definition MLD_GRAPH_NODE_LIST :: BlockID where [simp]: "MLD_GRAPH_NODE_LIST = 68"
definition MLD_GRAPH_EDGE_LIST :: BlockID where [simp]: "MLD_GRAPH_EDGE_LIST = 69"
definition MLD_GRAPH_NODE_TO_OFFSET :: BlockID where [simp]: "MLD_GRAPH_NODE_TO_OFFSET = 70"
definition MANEUVER_OVERRIDES :: BlockID where [simp]: "MANEUVER_OVERRIDES = 71"
definition MANEUVER_OVERRIDE_NODE_SEQUENCES :: BlockID where [simp]: "MANEUVER_OVERRIDE_NODE_SEQUENCES = 72"
definition NUM_BLOCKS :: nat where [simp]: "NUM_BLOCKS = 73"

text \<open>
  \<open>std::array<Block, NUM_BLOCKS> blocks\<close>, indexed by block identifier. Only the
  indices below \<open>NUM_BLOCKS\<close> are ever read or written. \<open>DataLayout()\<close>
  value-initialises every descriptor to zero.
\<close>

record DataLayout =
  blocks :: "BlockID \<Rightarrow> Block"

definition DataLayout_init :: DataLayout where
  "DataLayout_init =
     \<lparr>blocks = (\<lambda>_. \<lparr>num_entries = 0, byte_size = 0, entry_size = 0, entry_align = 0\<rparr>)\<rparr>"

definition SetBlock :: "DataLayout \<Rightarrow> BlockID \<Rightarrow> Block \<Rightarrow> DataLayout" where
  "SetBlock l bid block = l\<lparr>blocks := (blocks l)(bid := block)\<rparr>"


definition GetBlockSize :: "DataLayout \<Rightarrow> BlockID \<Rightarrow> 64 word" where
  "GetBlockSize l bid = byte_size (blocks l bid)"

text \<open>
  \<open>GetSizeOfLayout\<close>: the accumulator is a \<open>uint64_t\<close>; the loop runs over all block
  identifiers. (The \<open>BOOST_ASSERT\<close> on the alignment is compiled out of release builds.)
\<close>

definition GetSizeOfLayout :: "DataLayout \<Rightarrow> 64 word" where
  "GetSizeOfLayout l =
     fold (\<lambda>i result. result + (2 * sizeof_CANARY + GetBlockSize l i + entry_align (blocks l i)))
          [0..<NUM_BLOCKS] 0"

text \<open>\<open>align\<close>: \<open>(intptr - 1u + align) & -align\<close> on \<open>uintptr_t\<close>.\<close>

definition align :: "64 word \<Rightarrow> addr \<Rightarrow> addr" where
  "align a ptr = (ptr - 1 + a) AND (- a)"

text \<open>One pass of the loop body of \<open>GetAlignedBlockPtr\<close> for block \<open>i\<close>.\<close>

definition skip_block :: "DataLayout \<Rightarrow> BlockID \<Rightarrow> addr \<Rightarrow> addr" where
  "skip_block l i ptr =
     (let ptr = ptr + sizeof_CANARY;
          ptr = align (entry_align (blocks l i)) ptr;
          ptr = ptr + GetBlockSize l i;
          ptr = ptr + sizeof_CANARY
      in ptr)"

definition GetAlignedBlockPtr :: "DataLayout \<Rightarrow> addr \<Rightarrow> BlockID \<Rightarrow> addr" where
  "GetAlignedBlockPtr l ptr bid =
     (let ptr = fold (skip_block l) [0..<bid] ptr;
          ptr = ptr + sizeof_CANARY;
          ptr = align (entry_align (blocks l bid)) ptr
      in ptr)"

text \<open>
  The replay of the loop over every block of the layout: the address just past the trailing
  canary of the last block.
\<close>

definition layout_end :: "DataLayout \<Rightarrow> addr \<Rightarrow> addr" where
  "layout_end l base = fold (skip_block l) [0..<NUM_BLOCKS] base"

text \<open>The byte offset of a block's payload from the base pointer.\<close>

definition payload_offset :: "DataLayout \<Rightarrow> addr \<Rightarrow> BlockID \<Rightarrow> nat" where
  "payload_offset l base i = unat (GetAlignedBlockPtr l base i - base)"

text \<open>
  An alignment is a positive power of two; all blocks of a sized layout carry one
  (\<open>alignof(T)\<close>). A base is aligned when every block's alignment divides it.
\<close>

definition pow2_align :: "64 word \<Rightarrow> bool" where
  "pow2_align a = (\<exists>k\<in>{0..<64}. a = 2 ^ k)"

definition valid_alignments :: "DataLayout \<Rightarrow> bool" where
  "valid_alignments l = (\<forall>i\<in>{0..<NUM_BLOCKS}. pow2_align (entry_align (blocks l i)))"


text \<open>
  The per-block term of the size bound, \<open>2 * sizeof(CANARY) + byte_size + entry_align\<close>,
  and its sum over all blocks, both as unbounded numbers.
\<close>

definition block_bound :: "DataLayout \<Rightarrow> BlockID \<Rightarrow> nat" where
  "block_bound l i = 2 * 4 + unat (byte_size (blocks l i)) + unat (entry_align (blocks l i))"

definition layout_bound :: "DataLayout \<Rightarrow> nat" where
  "layout_bound l = sum_list (map (block_bound l) [0..<NUM_BLOCKS])"

subsection \<open>The offset replay as the specification words it\<close>

text \<open>
  The specification's \<open>aligned_offset_of\<close>: start from the base; for each earlier block
  advance by a canary, round up to the block's alignment, advance by its byte size, advance
  by a canary; finally advance by a canary and round up to the queried block's alignment.
  Rounding up is the arithmetic one (the next multiple), taken in the 64-bit address space.
\<close>

definition round_up :: "nat \<Rightarrow> nat \<Rightarrow> nat" where
  "round_up a n = (n + a - 1) div a * a"

definition round_up_ptr :: "64 word \<Rightarrow> addr \<Rightarrow> addr" where
  "round_up_ptr a p = of_nat (round_up (unat a) (unat p))"

primrec replay_blocks :: "DataLayout \<Rightarrow> nat \<Rightarrow> addr \<Rightarrow> addr" where
  "replay_blocks l 0 base = base"
| "replay_blocks l (Suc i) base =
     round_up_ptr (entry_align (blocks l i)) (replay_blocks l i base + 4)
       + byte_size (blocks l i) + 4"

definition aligned_offset_of :: "DataLayout \<Rightarrow> addr \<Rightarrow> BlockID \<Rightarrow> addr" where
  "aligned_offset_of l base bid =
     round_up_ptr (entry_align (blocks l bid)) (replay_blocks l bid base + 4)"

text \<open>The payload pointers of a list of consecutive blocks, computed in one pass.\<close>

primrec block_ptrs :: "DataLayout \<Rightarrow> addr \<Rightarrow> BlockID list \<Rightarrow> addr list" where
  "block_ptrs l ptr [] = []"
| "block_ptrs l ptr (i # ids) =
     (let payload = align (entry_align (blocks l i)) (ptr + sizeof_CANARY)
      in payload # block_ptrs l (payload + GetBlockSize l i + sizeof_CANARY) ids)"

subsection \<open>Errors\<close>

text \<open>
  The source throws \<open>util::exception\<close> with a message; the first three constructors name
  the three kinds of message of the two files: too many metrics (with the supported
  maximum), a connectivity checksum mismatch (graph checksum and file, turns checksum and
  file), a corrupted canary (block and side).
\<close>

datatype canary_side = StartCanary | EndCanary

text \<open>The input files that the two passes open, named by their suffix.\<close>

datatype input_file =
    File_names | File_tls | File_edges | File_ebg_nodes | File_hsgr | File_ramIndex
  | File_properties | File_timestamp | File_turn_weight_penalties
  | File_turn_duration_penalties | File_nbg_nodes | File_geometry | File_datasource_names
  | File_icd | File_tld | File_maneuver_overrides | File_partition | File_cells
  | File_cell_metrics | File_mldgr

text \<open>
  Modelled from the spec: the file reader (\<open>io::FileReader\<close> and the \<open>files::read...\<close>
  functions built on it) is not among the sources. Section 4.4 of the specification gives
  its failures: opening a file with fingerprint verification fails with
  \<open>FingerprintMismatch\<close> when the fingerprint is incompatible, and section 7 adds
  \<open>IOFailure\<close> for a file that cannot be opened or is shorter than the read asks for.
  Both carry the file.
\<close>

datatype error =
    TooManyMetrics nat
  | ChecksumMismatch "32 word" string "32 word" string
  | CanaryCorrupt BlockID canary_side
  | FingerprintMismatch input_file
  | IOFailure input_file

subsection \<open>Canaries in memory: \<open>GetBlockPtr\<close>\<close>

text \<open>\<open>std::copy(first, last, dest)\<close> and \<open>std::equal(first, last, other)\<close> on bytes.\<close>

primrec copy_bytes :: "char list \<Rightarrow> addr \<Rightarrow> memory \<Rightarrow> memory" where
  "copy_bytes [] dest m = m"
| "copy_bytes (c # cs) dest m = copy_bytes cs (dest + 1) (m(dest := c))"

primrec equal_bytes :: "char list \<Rightarrow> addr \<Rightarrow> memory \<Rightarrow> bool" where
  "equal_bytes [] other m = True"
| "equal_bytes (c # cs) other m = (m other = c \<and> equal_bytes cs (other + 1) m)"

text \<open>\<open>GetBlockPtr<T, true>\<close>: stamps both canaries and returns the payload pointer.\<close>

definition GetBlockPtr_write :: "DataLayout \<Rightarrow> memory \<Rightarrow> addr \<Rightarrow> BlockID \<Rightarrow> addr \<times> memory" where
  "GetBlockPtr_write l m shared_memory bid =
     (let ptr = GetAlignedBlockPtr l shared_memory bid;
          start_canary_ptr = ptr - sizeof_CANARY;
          end_canary_ptr = ptr + GetBlockSize l bid;
          m = copy_bytes CANARY start_canary_ptr m;
          m = copy_bytes CANARY end_canary_ptr m
      in (ptr, m))"

text \<open>\<open>GetBlockPtr<T, false>\<close>: verifies both canaries, the start one first.\<close>

definition GetBlockPtr_check :: "DataLayout \<Rightarrow> memory \<Rightarrow> addr \<Rightarrow> BlockID \<Rightarrow> error + addr" where
  "GetBlockPtr_check l m shared_memory bid =
     (let ptr = GetAlignedBlockPtr l shared_memory bid;
          start_canary_ptr = ptr - sizeof_CANARY;
          end_canary_ptr = ptr + GetBlockSize l bid;
          start_canary_alive = equal_bytes CANARY start_canary_ptr m;
          end_canary_alive = equal_bytes CANARY end_canary_ptr m
      in if \<not> start_canary_alive then Inl (CanaryCorrupt bid StartCanary)
         else if \<not> end_canary_alive then Inl (CanaryCorrupt bid EndCanary)
         else Inr ptr)"

section \<open>The sizing pass (src/storage/storage.cpp, \<open>Storage::PopulateLayout\<close>)\<close>

text \<open>
  The element types of the blocks. Their declarations are in headers that are not among the
  sources, so \<open>sizeof\<close> and \<open>alignof\<close> are parameters of the model, as is
  \<open>sizeof(DataLayout)\<close>.
\<close>

datatype ctype =
    T_char | T_uint32 | T_uint64 | T_unsigned
  | T_TurnLaneMask | T_TurnBearing | T_TurnInstruction | T_LaneDataID | T_EntryClassID
  | T_EdgeBasedNode | T_NodeBasedEdgeAnnotation
  | T_QueryGraph_NodeArrayEntry | T_QueryGraph_EdgeArrayEntry
  | T_RTreeNode | T_ProfileProperties | T_TurnPenalty
  | T_Coordinate | T_PackedOSMIDs_block | T_NodeID
  | T_SegmentWeight_block | T_SegmentDuration_block | T_DatasourceID | T_Datasources
  | T_DiscreteBearing | T_BearingClassID | T_RangeTable_BlockT | T_EntryClass
  | T_LaneTupleIdPair | T_StorageManeuverOverride
  | T_LevelData | T_PartitionID | T_CellID | T_CellData | T_EdgeWeight | T_EdgeDuration
  | T_MLGraph_NodeArrayEntry | T_MLGraph_EdgeArrayEntry | T_MLGraph_EdgeOffset

record abi =
  sizeof :: "ctype \<Rightarrow> 64 word"
  alignof :: "ctype \<Rightarrow> 64 word"
  sizeof_DataLayout :: "64 word"

text \<open>
  Modelled from the spec: \<open>make_block<T>(n)\<close> (storage/block.hpp is not among the
  sources): entry size \<open>sizeof(T)\<close>, entry alignment \<open>alignof(T)\<close>, entry count
  \<open>n\<close>, byte size \<open>n * sizeof(T)\<close>.
\<close>

definition make_block :: "abi \<Rightarrow> ctype \<Rightarrow> 64 word \<Rightarrow> Block" where
  "make_block abi T n =
     \<lparr>num_entries = n, byte_size = sizeof abi T * n,
      entry_size = sizeof abi T, entry_align = alignof abi T\<rparr>"

text \<open>
  The input files, as the reader calls of the two passes see them: the counts and length
  prefixes they return, the two kinds of checksum, which optional files exist, and for
  every block the bytes that the populate pass copies into it.
\<close>

record hsgr_file =
  hsgr_checksum :: "32 word"
  hsgr_num_nodes :: "64 word"
  hsgr_num_edges :: "64 word"
  hsgr_num_metrics :: "64 word"
  hsgr_connectivity_checksum :: "32 word"

record partition_file =
  partition_entries_count :: "64 word"
  children_entries_count :: "64 word"

record cells_file =
  source_node_count :: "64 word"
  destination_node_count :: "64 word"
  cell_count :: "64 word"
  level_offsets_count :: "64 word"

record cell_metrics_file =
  num_metric :: "64 word"
  weights_count :: "nat \<Rightarrow> 64 word"
  durations_count :: "nat \<Rightarrow> 64 word"

record mldgr_file =
  mldgr_num_nodes :: "64 word"
  mldgr_num_edges :: "64 word"
  mldgr_num_node_offsets :: "64 word"
  mldgr_connectivity_checksum :: "32 word"

record geometry_file =
  number_of_geometries_indices :: "64 word"
  number_of_compressed_geometries :: "64 word"
  number_of_segment_weight_blocks :: "64 word"
  number_of_rev_weight_blocks :: "64 word"
  number_of_segment_duration_blocks :: "64 word"

record icd_file =
  num_discreate_bearings :: "64 word"
  num_bearing_classes :: "64 word"
  bearing_blocks :: "64 word"
  bearing_offsets :: "64 word"
  num_entry_classes :: "64 word"

text \<open>
  Modelled from the spec: the file reader and the \<open>read...\<close> functions are not among the
  sources, and every call of them may raise (sections 4.4 and 7 of the specification: a
  wrong fingerprint at opening, an unreadable file or a short read afterwards). The input
  files say for every place where the two passes call the reader whether the call raises:
  \<open>Sizing f\<close> stands for the reader calls of the sizing pass on file \<open>f\<close> (opening it with
  \<open>VerifyFingerprint\<close>, then \<open>ReadElementCount64\<close>, \<open>ReadVectorSize\<close> and \<open>Skip\<close>),
  \<open>Populating f\<close> for those of the populate pass. The two passes open the files
  independently of each other. Between the first and the last reader call on one file the
  source throws nothing of its own, with one exception: the sizing pass tests the number of
  metrics of \<open>.osrm.cell_metrics\<close> after it has read that number and before it reads the
  vector sizes, so these later reads are a place of their own, \<open>Sizing_metric_vectors\<close>.
\<close>

datatype reader_failure = BadFingerprint | CannotRead

datatype read_point = Sizing input_file | Sizing_metric_vectors | Populating input_file

record inputs =
  failure :: "read_point \<Rightarrow> reader_failure option"
  absolute_file_index_path :: string
  names_size :: "64 word"
  tls_num_offsets :: "64 word"
  tls_num_masks :: "64 word"
  number_of_original_edges :: "64 word"
  edges_connectivity_checksum :: "32 word"
  nodes_number :: "64 word"
  annotations_number :: "64 word"
  hsgr :: "hsgr_file option"
  tree_size :: "64 word"
  tree_levels_size :: "64 word"
  timestamp_size :: "64 word"
  number_of_weight_penalties :: "64 word"
  number_of_duration_penalties :: "64 word"
  coordinate_list_size :: "64 word"
  num_id_blocks :: "64 word"
  geometry :: geometry_file
  icd :: icd_file
  lane_tuple_count :: "64 word"
  number_of_overrides :: "64 word"
  number_of_override_nodes :: "64 word"
  partition :: "partition_file option"
  cells :: "cells_file option"
  cell_metrics :: "cell_metrics_file option"
  mldgr :: "mldgr_file option"
  contents :: "BlockID \<Rightarrow> char list"

text \<open>\<open>static constexpr std::size_t NUM_METRICS = 8;\<close>\<close>

definition NUM_METRICS :: nat where
  "NUM_METRICS = 8"

text \<open>The exception that a failing reader call raises at a place.\<close>

definition file_of :: "read_point \<Rightarrow> input_file" where
  "file_of pt =
     (case pt of Sizing f \<Rightarrow> f | Sizing_metric_vectors \<Rightarrow> File_cell_metrics | Populating f \<Rightarrow> f)"

definition reader_error :: "read_point \<Rightarrow> reader_failure \<Rightarrow> error" where
  "reader_error pt rf =
     (case rf of
        BadFingerprint \<Rightarrow> FingerprintMismatch (file_of pt)
      | CannotRead \<Rightarrow> IOFailure (file_of pt))"

text \<open>
  Both passes are a sequence of brace-enclosed blocks, run in order; an exception raised in a
  block ends the pass. \<open>plain_block\<close> is a block that calls no reader, \<open>read_block\<close> one
  that opens a file and reads from it, \<open>optional_block\<close> one whose reader calls are made
  only when the file exists.
\<close>

primrec run_steps :: "('s \<Rightarrow> error + 's) list \<Rightarrow> 's \<Rightarrow> error + 's" where
  "run_steps [] s = Inr s"
| "run_steps (step # steps) s =
     (case step s of Inl e \<Rightarrow> Inl e | Inr s \<Rightarrow> run_steps steps s)"

definition plain_block :: "('s \<Rightarrow> 's) \<Rightarrow> 's \<Rightarrow> error + 's" where
  "plain_block f s = Inr (f s)"

definition read_block :: "inputs \<Rightarrow> read_point \<Rightarrow> ('s \<Rightarrow> 's) \<Rightarrow> 's \<Rightarrow> error + 's" where
  "read_block inp pt f s =
     (case failure inp pt of
        Some rf \<Rightarrow> Inl (reader_error pt rf)
      | None \<Rightarrow> Inr (f s))"

definition optional_block :: "inputs \<Rightarrow> bool \<Rightarrow> read_point \<Rightarrow> ('s \<Rightarrow> 's) \<Rightarrow> 's \<Rightarrow> error + 's" where
  "optional_block inp file_exists pt f s =
     (if file_exists then read_block inp pt f s else plain_block f s)"

text \<open>The blocks of \<open>PopulateLayout\<close>, in the order of the source.\<close>

definition layout_file_index_path :: "abi \<Rightarrow> inputs \<Rightarrow> DataLayout \<Rightarrow> DataLayout" where
  "layout_file_index_path abi inp layout =
     SetBlock layout FILE_INDEX_PATH
       (make_block abi T_char (of_nat (length (absolute_file_index_path inp)) + 1))"

definition layout_names :: "abi \<Rightarrow> inputs \<Rightarrow> DataLayout \<Rightarrow> DataLayout" where
  "layout_names abi inp layout =
     SetBlock layout NAME_CHAR_DATA (make_block abi T_char (names_size inp))"

definition layout_tls :: "abi \<Rightarrow> inputs \<Rightarrow> DataLayout \<Rightarrow> DataLayout" where
  "layout_tls abi inp layout =
     (let num_offsets = tls_num_offsets inp;
          num_masks = tls_num_masks inp;
          layout = SetBlock layout LANE_DESCRIPTION_OFFSETS (make_block abi T_uint32 num_offsets);
          layout = SetBlock layout LANE_DESCRIPTION_MASKS (make_block abi T_TurnLaneMask num_masks)
      in layout)"

definition layout_edges :: "abi \<Rightarrow> inputs \<Rightarrow> DataLayout \<Rightarrow> DataLayout" where
  "layout_edges abi inp layout =
     (let n = number_of_original_edges inp;
          layout = SetBlock layout PRE_TURN_BEARING (make_block abi T_TurnBearing n);
          layout = SetBlock layout POST_TURN_BEARING (make_block abi T_TurnBearing n);
          layout = SetBlock layout TURN_INSTRUCTION (make_block abi T_TurnInstruction n);
          layout = SetBlock layout LANE_DATA_ID (make_block abi T_LaneDataID n);
          layout = SetBlock layout ENTRY_CLASSID (make_block abi T_EntryClassID n)
      in layout)"

definition layout_ebg_nodes :: "abi \<Rightarrow> inputs \<Rightarrow> DataLayout \<Rightarrow> DataLayout" where
  "layout_ebg_nodes abi inp layout =
     (let layout = SetBlock layout EDGE_BASED_NODE_DATA_LIST
                     (make_block abi T_EdgeBasedNode (nodes_number inp));
          layout = SetBlock layout ANNOTATION_DATA_LIST
                     (make_block abi T_NodeBasedEdgeAnnotation (annotations_number inp))
      in layout)"

text \<open>
  The two loops over \<open>util::irange<std::size_t>(0, num_metrics)\<close> and
  \<open>util::irange<std::size_t>(num_metrics, NUM_METRICS)\<close> of the CH graph file.
\<close>

definition set_edge_filters :: "abi \<Rightarrow> 64 word \<Rightarrow> nat list \<Rightarrow> DataLayout \<Rightarrow> DataLayout" where
  "set_edge_filters abi n indices layout =
     fold (\<lambda>index layout. SetBlock layout (CH_EDGE_FILTER_0 + index) (make_block abi T_unsigned n))
          indices layout"

definition layout_hsgr :: "abi \<Rightarrow> inputs \<Rightarrow> DataLayout \<Rightarrow> error + DataLayout" where
  "layout_hsgr abi inp layout =
     (case hsgr inp of
        Some reader \<Rightarrow>
          (case failure inp (Sizing File_hsgr) of
             Some rf \<Rightarrow> Inl (reader_error (Sizing File_hsgr) rf)
           | None \<Rightarrow>
               (let num_nodes = hsgr_num_nodes reader;
                    num_edges = hsgr_num_edges reader;
                    num_metrics = hsgr_num_metrics reader
                in if unat num_metrics > NUM_METRICS then Inl (TooManyMetrics NUM_METRICS)
                   else
                     (let layout = SetBlock layout HSGR_CHECKSUM (make_block abi T_unsigned 1);
                          layout = SetBlock layout CH_GRAPH_NODE_LIST
                                     (make_block abi T_QueryGraph_NodeArrayEntry num_nodes);
                          layout = SetBlock layout CH_GRAPH_EDGE_LIST
                                     (make_block abi T_QueryGraph_EdgeArrayEntry num_edges);
                          layout = set_edge_filters abi num_edges [0..<unat num_metrics] layout;
                          layout = set_edge_filters abi 0 [unat num_metrics..<NUM_METRICS] layout
                      in Inr layout)))
      | None \<Rightarrow>
          (let layout = SetBlock layout HSGR_CHECKSUM (make_block abi T_unsigned 0);
               layout = SetBlock layout CH_GRAPH_NODE_LIST
                          (make_block abi T_QueryGraph_NodeArrayEntry 0);
               layout = SetBlock layout CH_GRAPH_EDGE_LIST
                          (make_block abi T_QueryGraph_EdgeArrayEntry 0);
               layout = set_edge_filters abi 0 [0..<NUM_METRICS] layout
           in Inr layout))"

definition layout_ramIndex :: "abi \<Rightarrow> inputs \<Rightarrow> DataLayout \<Rightarrow> DataLayout" where
  "layout_ramIndex abi inp layout =
     (let layout = SetBlock layout R_SEARCH_TREE (make_block abi T_RTreeNode (tree_size inp));
          layout = SetBlock layout R_SEARCH_TREE_LEVELS
                     (make_block abi T_uint64 (tree_levels_size inp))
      in layout)"

definition layout_properties :: "abi \<Rightarrow> inputs \<Rightarrow> DataLayout \<Rightarrow> DataLayout" where
  "layout_properties abi inp layout =
     SetBlock layout PROPERTIES (make_block abi T_ProfileProperties 1)"

definition layout_timestamp :: "abi \<Rightarrow> inputs \<Rightarrow> DataLayout \<Rightarrow> DataLayout" where
  "layout_timestamp abi inp layout =
     SetBlock layout TIMESTAMP (make_block abi T_char (timestamp_size inp))"

definition layout_turn_weight_penalties :: "abi \<Rightarrow> inputs \<Rightarrow> DataLayout \<Rightarrow> DataLayout" where
  "layout_turn_weight_penalties abi inp layout =
     SetBlock layout TURN_WEIGHT_PENALTIES
       (make_block abi T_TurnPenalty (number_of_weight_penalties inp))"

definition layout_turn_duration_penalties :: "abi \<Rightarrow> inputs \<Rightarrow> DataLayout \<Rightarrow> DataLayout" where
  "layout_turn_duration_penalties abi inp layout =
     SetBlock layout TURN_DURATION_PENALTIES
       (make_block abi T_TurnPenalty (number_of_duration_penalties inp))"

definition layout_nbg_nodes :: "abi \<Rightarrow> inputs \<Rightarrow> DataLayout \<Rightarrow> DataLayout" where
  "layout_nbg_nodes abi inp layout =
     (let layout = SetBlock layout COORDINATE_LIST
                     (make_block abi T_Coordinate (coordinate_list_size inp));
          layout = SetBlock layout OSM_NODE_ID_LIST
                     (make_block abi T_PackedOSMIDs_block (num_id_blocks inp))
      in layout)"

definition layout_geometry :: "abi \<Rightarrow> inputs \<Rightarrow> DataLayout \<Rightarrow> DataLayout" where
  "layout_geometry abi inp layout =
     (let reader = geometry inp;
          layout = SetBlock layout GEOMETRIES_INDEX
                     (make_block abi T_unsigned (number_of_geometries_indices reader));
          layout = SetBlock layout GEOMETRIES_NODE_LIST
                     (make_block abi T_NodeID (number_of_compressed_geometries reader));
          layout = SetBlock layout GEOMETRIES_FWD_WEIGHT_LIST
                     (make_block abi T_SegmentWeight_block (number_of_segment_weight_blocks reader));
          layout = SetBlock layout GEOMETRIES_REV_WEIGHT_LIST
                     (make_block abi T_SegmentWeight_block (number_of_segment_weight_blocks reader));
          layout = SetBlock layout GEOMETRIES_FWD_DURATION_LIST
                     (make_block abi T_SegmentDuration_block (number_of_segment_duration_blocks reader));
          layout = SetBlock layout GEOMETRIES_REV_DURATION_LIST
                     (make_block abi T_SegmentDuration_block (number_of_segment_duration_blocks reader));
          layout = SetBlock layout GEOMETRIES_FWD_DATASOURCES_LIST
                     (make_block abi T_DatasourceID (number_of_compressed_geometries reader));
          layout = SetBlock layout GEOMETRIES_REV_DATASOURCES_LIST
                     (make_block abi T_DatasourceID (number_of_compressed_geometries reader))
      in layout)"

definition layout_datasource_names :: "abi \<Rightarrow> inputs \<Rightarrow> DataLayout \<Rightarrow> DataLayout" where
  "layout_datasource_names abi inp layout =
     SetBlock layout DATASOURCES_NAMES (make_block abi T_Datasources 1)"

definition layout_icd :: "abi \<Rightarrow> inputs \<Rightarrow> DataLayout \<Rightarrow> DataLayout" where
  "layout_icd abi inp layout =
     (let reader = icd inp;
          layout = SetBlock layout BEARING_VALUES
                     (make_block abi T_DiscreteBearing (num_discreate_bearings reader));
          layout = SetBlock layout BEARING_CLASSID
                     (make_block abi T_BearingClassID (num_bearing_classes reader));
          layout = SetBlock layout BEARING_OFFSETS (make_block abi T_unsigned (bearing_blocks reader));
          layout = SetBlock layout BEARING_BLOCKS
                     (make_block abi T_RangeTable_BlockT (bearing_offsets reader));
          layout = SetBlock layout ENTRY_CLASS
                     (make_block abi T_EntryClass (num_entry_classes reader))
      in layout)"

definition layout_tld :: "abi \<Rightarrow> inputs \<Rightarrow> DataLayout \<Rightarrow> DataLayout" where
  "layout_tld abi inp layout =
     SetBlock layout TURN_LANE_DATA (make_block abi T_LaneTupleIdPair (lane_tuple_count inp))"

definition layout_maneuver_overrides :: "abi \<Rightarrow> inputs \<Rightarrow> DataLayout \<Rightarrow> DataLayout" where
  "layout_maneuver_overrides abi inp layout =
     (let layout = SetBlock layout MANEUVER_OVERRIDES
                     (make_block abi T_StorageManeuverOverride (number_of_overrides inp));
          layout = SetBlock layout MANEUVER_OVERRIDE_NODE_SEQUENCES
                     (make_block abi T_NodeID (number_of_override_nodes inp))
      in layout)"

definition layout_partition :: "abi \<Rightarrow> inputs \<Rightarrow> DataLayout \<Rightarrow> DataLayout" where
  "layout_partition abi inp layout =
     (case partition inp of
        Some reader \<Rightarrow>
          (let layout = SetBlock layout MLD_LEVEL_DATA (make_block abi T_LevelData 1);
               layout = SetBlock layout MLD_PARTITION
                          (make_block abi T_PartitionID (partition_entries_count reader));
               layout = SetBlock layout MLD_CELL_TO_CHILDREN
                          (make_block abi T_CellID (children_entries_count reader))
           in layout)
      | None \<Rightarrow>
          (let layout = SetBlock layout MLD_LEVEL_DATA (make_block abi T_LevelData 0);
               layout = SetBlock layout MLD_PARTITION (make_block abi T_PartitionID 0);
               layout = SetBlock layout MLD_CELL_TO_CHILDREN (make_block abi T_CellID 0)
           in layout))"

definition layout_cells :: "abi \<Rightarrow> inputs \<Rightarrow> DataLayout \<Rightarrow> DataLayout" where
  "layout_cells abi inp layout =
     (case cells inp of
        Some reader \<Rightarrow>
          (let layout = SetBlock layout MLD_CELL_SOURCE_BOUNDARY
                          (make_block abi T_NodeID (source_node_count reader));
               layout = SetBlock layout MLD_CELL_DESTINATION_BOUNDARY
                          (make_block abi T_NodeID (destination_node_count reader));
               layout = SetBlock layout MLD_CELLS (make_block abi T_CellData (cell_count reader));
               layout = SetBlock layout MLD_CELL_LEVEL_OFFSETS
                          (make_block abi T_uint64 (level_offsets_count reader))
           in layout)
      | None \<Rightarrow>
          (let layout = SetBlock layout MLD_CELL_SOURCE_BOUNDARY (make_block abi T_char 0);
               layout = SetBlock layout MLD_CELL_DESTINATION_BOUNDARY (make_block abi T_char 0);
               layout = SetBlock layout MLD_CELLS (make_block abi T_char 0);
               layout = SetBlock layout MLD_CELL_LEVEL_OFFSETS (make_block abi T_char 0)
           in layout))"

definition set_cell_metric :: "abi \<Rightarrow> (nat \<Rightarrow> 64 word) \<Rightarrow> (nat \<Rightarrow> 64 word) \<Rightarrow> nat \<Rightarrow> DataLayout \<Rightarrow> DataLayout" where
  "set_cell_metric abi weights durations index layout =
     (let layout = SetBlock layout (MLD_CELL_WEIGHTS_0 + index)
                     (make_block abi T_EdgeWeight (weights index));
          layout = SetBlock layout (MLD_CELL_DURATIONS_0 + index)
                     (make_block abi T_EdgeDuration (durations index))
      in layout)"

definition layout_cell_metrics :: "abi \<Rightarrow> inputs \<Rightarrow> DataLayout \<Rightarrow> error + DataLayout" where
  "layout_cell_metrics abi inp layout =
     (case cell_metrics inp of
        Some reader \<Rightarrow>
          (case failure inp (Sizing File_cell_metrics) of
             Some rf \<Rightarrow> Inl (reader_error (Sizing File_cell_metrics) rf)
           | None \<Rightarrow>
               (let n = num_metric reader
                in if unat n > NUM_METRICS then Inl (TooManyMetrics NUM_METRICS)
                   else
                     (case (if 0 < unat n then failure inp Sizing_metric_vectors else None) of
                        Some rf \<Rightarrow> Inl (reader_error Sizing_metric_vectors rf)
                      | None \<Rightarrow>
                          (let layout = fold (set_cell_metric abi (weights_count reader)
                                                (durations_count reader))
                                          [0..<unat n] layout;
                               layout = fold (set_cell_metric abi (\<lambda>_. 0) (\<lambda>_. 0))
                                          [unat n..<NUM_METRICS] layout
                           in Inr layout))))
      | None \<Rightarrow>
          Inr (fold (\<lambda>bid layout. SetBlock layout bid (make_block abi T_char 0))
                 [MLD_CELL_WEIGHTS_0, MLD_CELL_WEIGHTS_1, MLD_CELL_WEIGHTS_2, MLD_CELL_WEIGHTS_3,
                  MLD_CELL_WEIGHTS_4, MLD_CELL_WEIGHTS_5, MLD_CELL_WEIGHTS_6, MLD_CELL_WEIGHTS_7,
                  MLD_CELL_DURATIONS_0, MLD_CELL_DURATIONS_1, MLD_CELL_DURATIONS_2,
                  MLD_CELL_DURATIONS_3, MLD_CELL_DURATIONS_4, MLD_CELL_DURATIONS_5,
                  MLD_CELL_DURATIONS_6, MLD_CELL_DURATIONS_7]
                 layout))"

definition layout_mldgr :: "abi \<Rightarrow> inputs \<Rightarrow> DataLayout \<Rightarrow> DataLayout" where
  "layout_mldgr abi inp layout =
     (case mldgr inp of
        Some reader \<Rightarrow>
          (let layout = SetBlock layout MLD_GRAPH_NODE_LIST
                          (make_block abi T_MLGraph_NodeArrayEntry (mldgr_num_nodes reader));
               layout = SetBlock layout MLD_GRAPH_EDGE_LIST
                          (make_block abi T_MLGraph_EdgeArrayEntry (mldgr_num_edges reader));
               layout = SetBlock layout MLD_GRAPH_NODE_TO_OFFSET
                          (make_block abi T_MLGraph_EdgeOffset (mldgr_num_node_offsets reader))
           in layout)
      | None \<Rightarrow>
          (let layout = SetBlock layout MLD_GRAPH_NODE_LIST
                          (make_block abi T_MLGraph_NodeArrayEntry 0);
               layout = SetBlock layout MLD_GRAPH_EDGE_LIST
                          (make_block abi T_MLGraph_EdgeArrayEntry 0);
               layout = SetBlock layout MLD_GRAPH_NODE_TO_OFFSET
                          (make_block abi T_MLGraph_EdgeOffset 0)
           in layout))"

text \<open>
  The blocks that precede the CH graph file, and those between it and the cell metrics. The
  blocks of the file index path, of the profile properties and of the data source names
  size their block without opening a file.
\<close>

definition layout_before_hsgr :: "abi \<Rightarrow> inputs \<Rightarrow> DataLayout \<Rightarrow> error + DataLayout" where
  "layout_before_hsgr abi inp =
     run_steps
       [plain_block (layout_file_index_path abi inp),
        read_block inp (Sizing File_names) (layout_names abi inp),
        read_block inp (Sizing File_tls) (layout_tls abi inp),
        read_block inp (Sizing File_edges) (layout_edges abi inp),
        read_block inp (Sizing File_ebg_nodes) (layout_ebg_nodes abi inp)]"

definition layout_after_hsgr :: "abi \<Rightarrow> inputs \<Rightarrow> DataLayout \<Rightarrow> error + DataLayout" where
  "layout_after_hsgr abi inp =
     run_steps
       [read_block inp (Sizing File_ramIndex) (layout_ramIndex abi inp),
        plain_block (layout_properties abi inp),
        read_block inp (Sizing File_timestamp) (layout_timestamp abi inp),
        read_block inp (Sizing File_turn_weight_penalties) (layout_turn_weight_penalties abi inp),
        read_block inp (Sizing File_turn_duration_penalties)
          (layout_turn_duration_penalties abi inp),
        read_block inp (Sizing File_nbg_nodes) (layout_nbg_nodes abi inp),
        read_block inp (Sizing File_geometry) (layout_geometry abi inp),
        plain_block (layout_datasource_names abi inp),
        read_block inp (Sizing File_icd) (layout_icd abi inp),
        read_block inp (Sizing File_tld) (layout_tld abi inp),
        read_block inp (Sizing File_maneuver_overrides) (layout_maneuver_overrides abi inp),
        optional_block inp (partition inp \<noteq> None) (Sizing File_partition)
          (layout_partition abi inp),
        optional_block inp (cells inp \<noteq> None) (Sizing File_cells) (layout_cells abi inp)]"

definition PopulateLayout :: "abi \<Rightarrow> inputs \<Rightarrow> DataLayout \<Rightarrow> error + DataLayout" where
  "PopulateLayout abi inp =
     run_steps
       [layout_before_hsgr abi inp,
        layout_hsgr abi inp,
        layout_after_hsgr abi inp,
        layout_cell_metrics abi inp,
        optional_block inp (mldgr inp \<noteq> None) (Sizing File_mldgr) (layout_mldgr abi inp)]"

text \<open>
  The places at which the sizing pass calls the reader, in the order of the source: up to
  the test of the number of metrics of the CH graph file, up to the one of the cell-metrics
  file, and up to the end of the pass. A place of an optional file is among them only when
  the file exists, the reads of the vector sizes of the cell metrics only when there is a
  metric. \<open>reads_ok\<close> says that the reader raises at none of the places given.
\<close>

definition reads_ok :: "inputs \<Rightarrow> read_point list \<Rightarrow> bool" where
  "reads_ok inp pts = list_all (\<lambda>pt. failure inp pt = None) pts"

definition if_exists :: "'a option \<Rightarrow> read_point \<Rightarrow> read_point list" where
  "if_exists optional_file pt = (case optional_file of Some reader \<Rightarrow> [pt] | None \<Rightarrow> [])"

definition sizing_reads_to_hsgr_test :: "read_point list" where
  "sizing_reads_to_hsgr_test =
     map Sizing [File_names, File_tls, File_edges, File_ebg_nodes, File_hsgr]"

definition sizing_reads_to_cell_metrics_test :: "inputs \<Rightarrow> read_point list" where
  "sizing_reads_to_cell_metrics_test inp =
     map Sizing [File_names, File_tls, File_edges, File_ebg_nodes]
     @ if_exists (hsgr inp) (Sizing File_hsgr)
     @ map Sizing
         [File_ramIndex, File_timestamp, File_turn_weight_penalties,
          File_turn_duration_penalties, File_nbg_nodes, File_geometry, File_icd, File_tld,
          File_maneuver_overrides]
     @ if_exists (partition inp) (Sizing File_partition)
     @ if_exists (cells inp) (Sizing File_cells)
     @ [Sizing File_cell_metrics]"

definition sizing_reads :: "inputs \<Rightarrow> read_point list" where
  "sizing_reads inp =
     map Sizing [File_names, File_tls, File_edges, File_ebg_nodes]
     @ if_exists (hsgr inp) (Sizing File_hsgr)
     @ map Sizing
         [File_ramIndex, File_timestamp, File_turn_weight_penalties,
          File_turn_duration_penalties, File_nbg_nodes, File_geometry, File_icd, File_tld,
          File_maneuver_overrides]
     @ if_exists (partition inp) (Sizing File_partition)
     @ if_exists (cells inp) (Sizing File_cells)
     @ (case cell_metrics inp of
          Some reader \<Rightarrow>
            Sizing File_cell_metrics
            # (if 0 < unat (num_metric reader) then [Sizing_metric_vectors] else [])
        | None \<Rightarrow> [])
     @ if_exists (mldgr inp) (Sizing File_mldgr)"

section \<open>The populate pass (\<open>Storage::PopulateData\<close>)\<close>

text \<open>
  Every block of the source follows one pattern: \<open>GetBlockPtr<T, true>\<close> for each block
  it touches, in order, and then one read call that copies the file's data to the pointers
  obtained. \<open>get_block_ptrs\<close> is the first half, \<open>read_into\<close> the second. The
  \<open>BOOST_ASSERT\<close>s of the source are compiled out of release builds and have no
  counterpart here.
\<close>

definition get_block_ptrs :: "DataLayout \<Rightarrow> addr \<Rightarrow> BlockID list \<Rightarrow> memory \<Rightarrow> addr list \<times> memory" where
  "get_block_ptrs layout memory_ptr bids m =
     fold (\<lambda>bid (ptrs, m).
             (let (ptr, m) = GetBlockPtr_write layout m memory_ptr bid in (ptrs @ [ptr], m)))
          bids ([], m)"

definition read_into :: "inputs \<Rightarrow> (BlockID \<times> addr) list \<Rightarrow> memory \<Rightarrow> memory" where
  "read_into inp views m = fold (\<lambda>(bid, ptr) m. copy_bytes (contents inp bid) ptr m) views m"

definition load_blocks :: "inputs \<Rightarrow> DataLayout \<Rightarrow> addr \<Rightarrow> BlockID list \<Rightarrow> memory \<Rightarrow> memory" where
  "load_blocks inp layout memory_ptr bids m =
     (let (ptrs, m) = get_block_ptrs layout memory_ptr bids m
      in read_into inp (zip bids ptrs) m)"

text \<open>The file name of the on-disk part of the R-tree: zero fill, then the path.\<close>

definition populate_file_index_path :: "inputs \<Rightarrow> DataLayout \<Rightarrow> addr \<Rightarrow> memory \<Rightarrow> memory" where
  "populate_file_index_path inp layout memory_ptr m =
     (let (file_index_path_ptr, m) = GetBlockPtr_write layout m memory_ptr FILE_INDEX_PATH;
          m = copy_bytes (replicate (unat (GetBlockSize layout FILE_INDEX_PATH)) (CHR 0x00))
                file_index_path_ptr m;
          m = copy_bytes (absolute_file_index_path inp) file_index_path_ptr m
      in m)"

text \<open>
  The blocks from the names to the intersection data, each with the file it reads. The
  block of the file index path reads no file.
\<close>

definition populate_before_hsgr :: "inputs \<Rightarrow> DataLayout \<Rightarrow> addr \<Rightarrow> memory \<Rightarrow> error + memory" where
  "populate_before_hsgr inp layout memory_ptr =
     run_steps
       [plain_block (populate_file_index_path inp layout memory_ptr),
        read_block inp (Populating File_names)
          (load_blocks inp layout memory_ptr [NAME_CHAR_DATA]),
        read_block inp (Populating File_tld)
          (load_blocks inp layout memory_ptr [TURN_LANE_DATA]),
        read_block inp (Populating File_tls)
          (load_blocks inp layout memory_ptr
             [LANE_DESCRIPTION_OFFSETS, LANE_DESCRIPTION_MASKS]),
        read_block inp (Populating File_ebg_nodes)
          (load_blocks inp layout memory_ptr
             [EDGE_BASED_NODE_DATA_LIST, ANNOTATION_DATA_LIST]),
        read_block inp (Populating File_edges)
          (load_blocks inp layout memory_ptr
             [LANE_DATA_ID, TURN_INSTRUCTION, ENTRY_CLASSID, PRE_TURN_BEARING,
              POST_TURN_BEARING]),
        read_block inp (Populating File_geometry)
          (load_blocks inp layout memory_ptr
             [GEOMETRIES_INDEX, GEOMETRIES_NODE_LIST, GEOMETRIES_FWD_WEIGHT_LIST,
              GEOMETRIES_REV_WEIGHT_LIST, GEOMETRIES_FWD_DURATION_LIST,
              GEOMETRIES_REV_DURATION_LIST, GEOMETRIES_FWD_DATASOURCES_LIST,
              GEOMETRIES_REV_DATASOURCES_LIST]),
        read_block inp (Populating File_datasource_names)
          (load_blocks inp layout memory_ptr [DATASOURCES_NAMES]),
        read_block inp (Populating File_nbg_nodes)
          (load_blocks inp layout memory_ptr [COORDINATE_LIST, OSM_NODE_ID_LIST]),
        read_block inp (Populating File_turn_weight_penalties)
          (load_blocks inp layout memory_ptr [TURN_WEIGHT_PENALTIES]),
        read_block inp (Populating File_turn_duration_penalties)
          (load_blocks inp layout memory_ptr [TURN_DURATION_PENALTIES]),
        read_block inp (Populating File_timestamp)
          (load_blocks inp layout memory_ptr [TIMESTAMP]),
        read_block inp (Populating File_ramIndex)
          (\<lambda>m. load_blocks inp layout memory_ptr [R_SEARCH_TREE_LEVELS]
                 (load_blocks inp layout memory_ptr [R_SEARCH_TREE] m)),
        read_block inp (Populating File_properties)
          (load_blocks inp layout memory_ptr [PROPERTIES]),
        read_block inp (Populating File_icd)
          (load_blocks inp layout memory_ptr
             [BEARING_CLASSID, BEARING_VALUES, BEARING_OFFSETS, BEARING_BLOCKS,
              ENTRY_CLASS])]"

text \<open>
  The CH graph file. When it exists, the graph blocks and all \<open>NUM_METRICS\<close> edge filter
  blocks are obtained and read, and the connectivity checksums are compared; the turns
  checksum is the one that the read of \<open>.osrm.edges\<close> delivered. When the file does not
  exist, the source obtains the pointers of three blocks only (that stamps their canaries).
\<close>

definition populate_hsgr :: "inputs \<Rightarrow> DataLayout \<Rightarrow> addr \<Rightarrow> 32 word \<Rightarrow> memory \<Rightarrow> error + memory" where
  "populate_hsgr inp layout memory_ptr turns_connectivity_checksum m =
     (case hsgr inp of
        Some reader \<Rightarrow>
          (case failure inp (Populating File_hsgr) of
             Some rf \<Rightarrow> Inl (reader_error (Populating File_hsgr) rf)
           | None \<Rightarrow>
               (let m = load_blocks inp layout memory_ptr
                          ([CH_GRAPH_NODE_LIST, CH_GRAPH_EDGE_LIST, HSGR_CHECKSUM]
                           @ map (\<lambda>index. CH_EDGE_FILTER_0 + index) [0..<NUM_METRICS]) m;
                    graph_connectivity_checksum = hsgr_connectivity_checksum reader
                in if turns_connectivity_checksum \<noteq> graph_connectivity_checksum
                   then Inl (ChecksumMismatch graph_connectivity_checksum ''.osrm.hsgr''
                               turns_connectivity_checksum ''.osrm.edges'')
                   else Inr m))
      | None \<Rightarrow>
          (let (ptrs, m) = get_block_ptrs layout memory_ptr
                             [HSGR_CHECKSUM, CH_GRAPH_NODE_LIST, CH_GRAPH_EDGE_LIST] m
           in Inr m))"

text \<open>The multi-level partition, cells and cell metrics: loaded only when the file exists.\<close>

definition populate_partition :: "inputs \<Rightarrow> DataLayout \<Rightarrow> addr \<Rightarrow> memory \<Rightarrow> memory" where
  "populate_partition inp layout memory_ptr m =
     (case partition inp of
        Some reader \<Rightarrow>
          load_blocks inp layout memory_ptr [MLD_LEVEL_DATA, MLD_PARTITION, MLD_CELL_TO_CHILDREN] m
      | None \<Rightarrow> m)"

definition populate_cells :: "inputs \<Rightarrow> DataLayout \<Rightarrow> addr \<Rightarrow> memory \<Rightarrow> memory" where
  "populate_cells inp layout memory_ptr m =
     (case cells inp of
        Some reader \<Rightarrow>
          load_blocks inp layout memory_ptr
            [MLD_CELL_SOURCE_BOUNDARY, MLD_CELL_DESTINATION_BOUNDARY, MLD_CELLS,
             MLD_CELL_LEVEL_OFFSETS] m
      | None \<Rightarrow> m)"

definition populate_cell_metrics :: "inputs \<Rightarrow> DataLayout \<Rightarrow> addr \<Rightarrow> memory \<Rightarrow> memory" where
  "populate_cell_metrics inp layout memory_ptr m =
     (case cell_metrics inp of
        Some reader \<Rightarrow>
          load_blocks inp layout memory_ptr
            (concat (map (\<lambda>index. [MLD_CELL_WEIGHTS_0 + index, MLD_CELL_DURATIONS_0 + index])
                       [0..<NUM_METRICS])) m
      | None \<Rightarrow> m)"

definition populate_mldgr :: "inputs \<Rightarrow> DataLayout \<Rightarrow> addr \<Rightarrow> 32 word \<Rightarrow> memory \<Rightarrow> error + memory" where
  "populate_mldgr inp layout memory_ptr turns_connectivity_checksum m =
     (case mldgr inp of
        Some reader \<Rightarrow>
          (case failure inp (Populating File_mldgr) of
             Some rf \<Rightarrow> Inl (reader_error (Populating File_mldgr) rf)
           | None \<Rightarrow>
               (let m = load_blocks inp layout memory_ptr
                          [MLD_GRAPH_NODE_LIST, MLD_GRAPH_EDGE_LIST, MLD_GRAPH_NODE_TO_OFFSET] m;
                    graph_connectivity_checksum = mldgr_connectivity_checksum reader
                in if turns_connectivity_checksum \<noteq> graph_connectivity_checksum
                   then Inl (ChecksumMismatch graph_connectivity_checksum ''.osrm.mldgr''
                               turns_connectivity_checksum ''.osrm.edges'')
                   else Inr m))
      | None \<Rightarrow> Inr m)"

definition populate_maneuver_overrides :: "inputs \<Rightarrow> DataLayout \<Rightarrow> addr \<Rightarrow> memory \<Rightarrow> memory" where
  "populate_maneuver_overrides inp layout memory_ptr m =
     load_blocks inp layout memory_ptr [MANEUVER_OVERRIDES, MANEUVER_OVERRIDE_NODE_SEQUENCES] m"

definition populate_mld_tables :: "inputs \<Rightarrow> DataLayout \<Rightarrow> addr \<Rightarrow> memory \<Rightarrow> error + memory" where
  "populate_mld_tables inp layout memory_ptr =
     run_steps
       [optional_block inp (partition inp \<noteq> None) (Populating File_partition)
          (populate_partition inp layout memory_ptr),
        optional_block inp (cells inp \<noteq> None) (Populating File_cells)
          (populate_cells inp layout memory_ptr),
        optional_block inp (cell_metrics inp \<noteq> None) (Populating File_cell_metrics)
          (populate_cell_metrics inp layout memory_ptr)]"

definition PopulateData :: "inputs \<Rightarrow> DataLayout \<Rightarrow> addr \<Rightarrow> memory \<Rightarrow> error + memory" where
  "PopulateData inp layout memory_ptr =
     (let turns_connectivity_checksum = edges_connectivity_checksum inp
      in run_steps
           [populate_before_hsgr inp layout memory_ptr,
            populate_hsgr inp layout memory_ptr turns_connectivity_checksum,
            populate_mld_tables inp layout memory_ptr,
            populate_mldgr inp layout memory_ptr turns_connectivity_checksum,
            read_block inp (Populating File_maneuver_overrides)
              (populate_maneuver_overrides inp layout memory_ptr)])"

text \<open>
  The places at which the populate pass calls the reader, in the order of the source: up
  to the comparison of the checksums of the CH graph file, up to the one of the multi-level
  graph file, and up to the end of the pass.
\<close>

definition populate_reads_before_hsgr :: "read_point list" where
  "populate_reads_before_hsgr =
     map Populating
       [File_names, File_tld, File_tls, File_ebg_nodes, File_edges, File_geometry,
        File_datasource_names, File_nbg_nodes, File_turn_weight_penalties,
        File_turn_duration_penalties, File_timestamp, File_ramIndex, File_properties,
        File_icd]"



definition populate_reads :: "inputs \<Rightarrow> read_point list" where
  "populate_reads inp =
     populate_reads_before_hsgr
     @ if_exists (hsgr inp) (Populating File_hsgr)
     @ if_exists (partition inp) (Populating File_partition)
     @ if_exists (cells inp) (Populating File_cells)
     @ if_exists (cell_metrics inp) (Populating File_cell_metrics)
     @ if_exists (mldgr inp) (Populating File_mldgr)
     @ [Populating File_maneuver_overrides]"

text \<open>Whether both canaries of a block hold the tag.\<close>

definition canaries_alive :: "DataLayout \<Rightarrow> memory \<Rightarrow> addr \<Rightarrow> BlockID \<Rightarrow> bool" where
  "canaries_alive l m shared_memory bid =
     (let ptr = GetAlignedBlockPtr l shared_memory bid
      in equal_bytes CANARY (ptr - sizeof_CANARY) m
         \<and> equal_bytes CANARY (ptr + GetBlockSize l bid) m)"

section \<open>The publisher (\<open>Storage::Run\<close>)\<close>

datatype SharedDataType = REGION_NONE | REGION_1 | REGION_2

record SharedDataTimestamp =
  region :: SharedDataType
  timestamp :: "32 word"

text \<open>
  The operating-system objects the publisher works on: the named monitor (absent before the
  first run), the named shared memory regions, and the trace of the calls made on them and
  of the warnings logged. A region holds the layout descriptor copied to its start and the
  bytes behind it.
\<close>

record shared_region =
  region_size :: "64 word"
  region_layout :: DataLayout
  region_memory :: memory

datatype event =
    Warn_UpdateInProgress
  | Warn_NoRamLock
  | Warn_OldRegionExists SharedDataType
  | Warn_LockTimeout int
  | Monitor_Created SharedDataTimestamp
  | Monitor_Removed
  | Monitor_NotifyAll
  | Region_Created SharedDataType "64 word"
  | Region_Opened SharedDataType
  | Region_Removed SharedDataType
  | Region_WaitForDetach SharedDataType

record system =
  monitor :: "SharedDataTimestamp option"
  regions :: "SharedDataType \<Rightarrow> shared_region option"
  trace :: "event list"

text \<open>
  What a run finds outside the program: the platform's type sizes, the input files, whether
  the datastore file lock is contended, whether \<open>mlockall\<close> fails, the address at which
  the new region is mapped, and whether the timed lock on the monitor's mutex succeeds
  before its deadline.
\<close>

record environment =
  env_abi :: abi
  env_inputs :: inputs
  datastore_lock_contended :: bool
  mlockall_fails :: bool
  region_address :: addr
  timed_lock_acquired :: bool

definition log_event :: "event \<Rightarrow> system \<Rightarrow> system" where
  "log_event e s = s\<lparr>trace := trace s @ [e]\<rparr>"

text \<open>
  Modelled from the spec: the constructor of \<open>SharedMonitor\<close> (storage/shared_monitor.hpp
  is not among the sources) opens the named monitor, creating it with the given initial
  data if it is absent; \<open>remove\<close> destroys the named object; \<open>notify_all\<close> wakes the
  waiters.
\<close>

definition Monitor_construct :: "SharedDataTimestamp \<Rightarrow> system \<Rightarrow> system" where
  "Monitor_construct initial s =
     (case monitor s of
        Some d \<Rightarrow> s
      | None \<Rightarrow> log_event (Monitor_Created initial) (s\<lparr>monitor := Some initial\<rparr>))"

definition Monitor_data :: "system \<Rightarrow> SharedDataTimestamp" where
  "Monitor_data s =
     (case monitor s of Some d \<Rightarrow> d | None \<Rightarrow> \<lparr>region = REGION_NONE, timestamp = 0\<rparr>)"

definition Monitor_remove :: "system \<Rightarrow> system" where
  "Monitor_remove s = log_event Monitor_Removed (s\<lparr>monitor := None\<rparr>)"

definition Monitor_notify_all :: "system \<Rightarrow> system" where
  "Monitor_notify_all s = log_event Monitor_NotifyAll s"

text \<open>
  Modelled from the spec: the region handle (storage/shared_memory.hpp is not among the
  sources). \<open>RegionExists\<close> probes a name; \<open>Remove\<close> requests destruction, after which
  the name is free; \<open>makeSharedMemory\<close> with a size creates the region (a fresh segment
  is zero-filled), without a size it opens it; \<open>WaitForDetach\<close> returns when the last
  client has detached.
\<close>

definition RegionExists :: "system \<Rightarrow> SharedDataType \<Rightarrow> bool" where
  "RegionExists s r = (regions s r \<noteq> None)"

definition SharedMemory_Remove :: "SharedDataType \<Rightarrow> system \<Rightarrow> system" where
  "SharedMemory_Remove r s = log_event (Region_Removed r) (s\<lparr>regions := (regions s)(r := None)\<rparr>)"

definition zero_memory :: memory where
  "zero_memory = (\<lambda>_. CHR 0x00)"

definition makeSharedMemory_create :: "SharedDataType \<Rightarrow> 64 word \<Rightarrow> system \<Rightarrow> system" where
  "makeSharedMemory_create r bytes s =
     log_event (Region_Created r bytes)
       (s\<lparr>regions := (regions s)(r \<mapsto>
            \<lparr>region_size = bytes, region_layout = DataLayout_init, region_memory = zero_memory\<rparr>)\<rparr>)"

definition makeSharedMemory_open :: "SharedDataType \<Rightarrow> system \<Rightarrow> system" where
  "makeSharedMemory_open r s = log_event (Region_Opened r) s"

definition WaitForDetach :: "SharedDataType \<Rightarrow> system \<Rightarrow> system" where
  "WaitForDetach r s = log_event (Region_WaitForDetach r) s"

definition write_region :: "SharedDataType \<Rightarrow> DataLayout \<Rightarrow> memory \<Rightarrow> system \<Rightarrow> system" where
  "write_region r layout m s =
     s\<lparr>regions := (regions s)(r := map_option (\<lambda>seg. seg\<lparr>region_layout := layout, region_memory := m\<rparr>)
                                       (regions s r))\<rparr>"

definition EXIT_SUCCESS :: int where
  "EXIT_SUCCESS = 0"

text \<open>The start of \<open>Run\<close>: the file lock, the RAM lock, the monitor, the choice of the next
  region and the removal of a stale one.\<close>

definition next_region_of :: "SharedDataType \<Rightarrow> SharedDataType" where
  "next_region_of in_use_region =
     (if in_use_region = REGION_2 \<or> in_use_region = REGION_NONE then REGION_1 else REGION_2)"

definition Run_prepare :: "environment \<Rightarrow> system \<Rightarrow> system" where
  "Run_prepare env s =
     (let s = (if datastore_lock_contended env then log_event Warn_UpdateInProgress s else s);
          s = (if mlockall_fails env then log_event Warn_NoRamLock s else s);
          s = Monitor_construct \<lparr>region = REGION_NONE, timestamp = 0\<rparr> s
      in s)"

definition remove_stale :: "SharedDataType \<Rightarrow> system \<Rightarrow> system" where
  "remove_stale next_region s =
     (if RegionExists s next_region
      then SharedMemory_Remove next_region (log_event (Warn_OldRegionExists next_region) s)
      else s)"

text \<open>
  The locked section: with \<open>max_wait \<ge> 0\<close> a timed lock; when it fails the monitor is
  removed and constructed anew and the region in use is forgotten. With \<open>max_wait < 0\<close>
  the lock blocks until it is acquired. Then the monitor's data are updated. The result is
  the region in use (as the variable stands afterwards) and the new state.
\<close>

definition publish :: "environment \<Rightarrow> int \<Rightarrow> SharedDataType \<Rightarrow> SharedDataType \<Rightarrow> 32 word \<Rightarrow> system
    \<Rightarrow> SharedDataType \<times> system" where
  "publish env max_wait in_use_region next_region next_timestamp s =
     (let (in_use_region, s) =
            (if max_wait \<ge> 0
             then (if \<not> timed_lock_acquired env
                   then (let s = log_event (Warn_LockTimeout max_wait) s;
                             s = Monitor_remove s;
                             s = Monitor_construct \<lparr>region = REGION_NONE, timestamp = 0\<rparr> s
                         in (REGION_NONE, s))
                   else (in_use_region, s))
             else (in_use_region, s));
          s = s\<lparr>monitor := map_option (\<lambda>d. d\<lparr>region := next_region\<rparr>) (monitor s)\<rparr>;
          s = s\<lparr>monitor := map_option (\<lambda>d. d\<lparr>timestamp := next_timestamp\<rparr>) (monitor s)\<rparr>
      in (in_use_region, s))"

text \<open>The end of \<open>Run\<close>: the old region is marked for removal and waited on.\<close>

definition retire :: "SharedDataType \<Rightarrow> system \<Rightarrow> system" where
  "retire in_use_region s =
     (if in_use_region \<noteq> REGION_NONE \<and> RegionExists s in_use_region
      then (let s = makeSharedMemory_open in_use_region s;
                s = SharedMemory_Remove in_use_region s;
                s = WaitForDetach in_use_region s
            in s)
      else s)"

definition Run :: "environment \<Rightarrow> int \<Rightarrow> system \<Rightarrow> error + int \<times> system" where
  "Run env max_wait s =
     (let s = Run_prepare env s;
          in_use_region = region (Monitor_data s);
          next_timestamp = timestamp (Monitor_data s) + 1;
          next_region = next_region_of in_use_region;
          s = remove_stale next_region s
      in case PopulateLayout (env_abi env) (env_inputs env) DataLayout_init of
           Inl e \<Rightarrow> Inl e
         | Inr layout \<Rightarrow>
             (let regions_size = sizeof_DataLayout (env_abi env) + GetSizeOfLayout layout;
                  s = makeSharedMemory_create next_region regions_size s;
                  shared_memory_ptr = region_address env
              in case PopulateData (env_inputs env) layout
                        (shared_memory_ptr + sizeof_DataLayout (env_abi env)) zero_memory of
                   Inl e \<Rightarrow> Inl e
                 | Inr m \<Rightarrow>
                     (let s = write_region next_region layout m s;
                          (in_use_region, s) =
                             publish env max_wait in_use_region next_region next_timestamp s;
                          s = Monitor_notify_all s;
                          s = retire in_use_region s
                      in Inr (EXIT_SUCCESS, s))))"

text \<open>
  Two stages of a successful run, used to state and prove its properties: the state in
  which it reaches the locked section (monitor constructed, stale region removed, new
  region created and written), and the result of the locked section.
\<close>

definition before_lock :: "environment \<Rightarrow> DataLayout \<Rightarrow> memory \<Rightarrow> system \<Rightarrow> system" where
  "before_lock env layout m s =
     (let n = next_region_of (region (Monitor_data s))
      in write_region n layout m
           (makeSharedMemory_create n (sizeof_DataLayout (env_abi env) + GetSizeOfLayout layout)
              (remove_stale n (Run_prepare env s))))"

definition after_lock :: "environment \<Rightarrow> int \<Rightarrow> DataLayout \<Rightarrow> memory \<Rightarrow> system \<Rightarrow> SharedDataType \<times> system" where
  "after_lock env max_wait layout m s =
     publish env max_wait (region (Monitor_data s)) (next_region_of (region (Monitor_data s)))
       (timestamp (Monitor_data s) + 1) (before_lock env layout m s)"

text \<open>The monitor a run leaves behind (none when the run fails).\<close>

definition monitor_after :: "error + int \<times> system \<Rightarrow> SharedDataTimestamp option" where
  "monitor_after res = (case res of Inr (rc, s') \<Rightarrow> monitor s' | Inl e \<Rightarrow> None)"

section \<open>Concrete layouts used in the examples\<close>

text \<open>
  A layout of \<open>char\<close> blocks only: \<open>n\<close> bytes in the first block
  (\<open>NAME_CHAR_DATA\<close>), every other block empty.
\<close>

definition char_layout :: "64 word \<Rightarrow> DataLayout" where
  "char_layout n =
     \<lparr>blocks = (\<lambda>i. \<lparr>num_entries = (if i = 0 then n else 0),
                        byte_size = (if i = 0 then n else 0),
                        entry_size = 1, entry_align = 1\<rparr>)\<rparr>"

text \<open>
  A layout with mixed alignments: three bytes of names, two 8-byte entries aligned to 8 in
  the second block, and empty blocks of 4-byte entries behind them.
\<close>

definition mixed_layout :: DataLayout where
  "mixed_layout =
     \<lparr>blocks = (\<lambda>i. if i = 0 then \<lparr>num_entries = 3, byte_size = 3, entry_size = 1, entry_align = 1\<rparr>
                    else if i = 1 then \<lparr>num_entries = 2, byte_size = 16, entry_size = 8, entry_align = 8\<rparr>
                    else \<lparr>num_entries = 0, byte_size = 0, entry_size = 4, entry_align = 4\<rparr>)\<rparr>"

section \<open>A concrete platform and concrete input files used in the examples\<close>

text \<open>
  Sizes and alignments of an example platform (the values only serve the examples), and a
  minimal set of input files: every count is zero, no optional file exists, the turns
  connectivity checksum is \<open>0xAAA\<close>. \<open>ch_graph\<close> is a CH graph file with three edges,
  a given number of metrics and a given connectivity checksum.
\<close>

definition example_abi :: abi where
  "example_abi =
     \<lparr>sizeof = (\<lambda>T. case T of
                  T_char \<Rightarrow> 1 | T_TurnBearing \<Rightarrow> 1 | T_DatasourceID \<Rightarrow> 1 | T_MLGraph_EdgeOffset \<Rightarrow> 1
                | T_TurnLaneMask \<Rightarrow> 2 | T_TurnInstruction \<Rightarrow> 2 | T_LaneDataID \<Rightarrow> 2
                | T_EntryClassID \<Rightarrow> 2 | T_TurnPenalty \<Rightarrow> 2 | T_DiscreteBearing \<Rightarrow> 2
                | T_LaneTupleIdPair \<Rightarrow> 2
                | T_uint64 \<Rightarrow> 8 | T_Coordinate \<Rightarrow> 8 | T_PackedOSMIDs_block \<Rightarrow> 8
                | T_SegmentWeight_block \<Rightarrow> 8 | T_SegmentDuration_block \<Rightarrow> 8
                | T_NodeBasedEdgeAnnotation \<Rightarrow> 8 | T_PartitionID \<Rightarrow> 8
                | T_EdgeBasedNode \<Rightarrow> 12 | T_MLGraph_EdgeArrayEntry \<Rightarrow> 12
                | T_QueryGraph_EdgeArrayEntry \<Rightarrow> 16 | T_RangeTable_BlockT \<Rightarrow> 16
                | T_StorageManeuverOverride \<Rightarrow> 20 | T_RTreeNode \<Rightarrow> 24
                | T_ProfileProperties \<Rightarrow> 16 | T_Datasources \<Rightarrow> 16
                | T_CellData \<Rightarrow> 32 | T_LevelData \<Rightarrow> 152
                | _ \<Rightarrow> 4),
      alignof = (\<lambda>T. case T of
                  T_char \<Rightarrow> 1 | T_TurnBearing \<Rightarrow> 1 | T_DatasourceID \<Rightarrow> 1 | T_MLGraph_EdgeOffset \<Rightarrow> 1
                | T_Datasources \<Rightarrow> 1
                | T_TurnLaneMask \<Rightarrow> 2 | T_TurnInstruction \<Rightarrow> 2 | T_LaneDataID \<Rightarrow> 2
                | T_EntryClassID \<Rightarrow> 2 | T_TurnPenalty \<Rightarrow> 2 | T_DiscreteBearing \<Rightarrow> 2
                | T_LaneTupleIdPair \<Rightarrow> 2
                | T_uint64 \<Rightarrow> 8 | T_PackedOSMIDs_block \<Rightarrow> 8
                | T_SegmentWeight_block \<Rightarrow> 8 | T_SegmentDuration_block \<Rightarrow> 8
                | T_PartitionID \<Rightarrow> 8 | T_RTreeNode \<Rightarrow> 8 | T_ProfileProperties \<Rightarrow> 8
                | T_CellData \<Rightarrow> 8 | T_LevelData \<Rightarrow> 8
                | _ \<Rightarrow> 4),
      sizeof_DataLayout = 2336\<rparr>"

definition minimal_inputs :: inputs where
  "minimal_inputs =
     \<lparr>failure = (\<lambda>_. None),
      absolute_file_index_path = ''/d/m.osrm.fileIndex'',
      names_size = 0, tls_num_offsets = 0, tls_num_masks = 0,
      number_of_original_edges = 0, edges_connectivity_checksum = 0xAAA,
      nodes_number = 0, annotations_number = 0,
      hsgr = None,
      tree_size = 0, tree_levels_size = 0, timestamp_size = 0,
      number_of_weight_penalties = 0, number_of_duration_penalties = 0,
      coordinate_list_size = 0, num_id_blocks = 0,
      geometry = \<lparr>number_of_geometries_indices = 0, number_of_compressed_geometries = 0,
                   number_of_segment_weight_blocks = 0, number_of_rev_weight_blocks = 0,
                   number_of_segment_duration_blocks = 0\<rparr>,
      icd = \<lparr>num_discreate_bearings = 0, num_bearing_classes = 0, bearing_blocks = 0,
              bearing_offsets = 0, num_entry_classes = 0\<rparr>,
      lane_tuple_count = 0, number_of_overrides = 0, number_of_override_nodes = 0,
      partition = None, cells = None, cell_metrics = None, mldgr = None,
      contents = (\<lambda>bid. if bid = PROPERTIES \<or> bid = DATASOURCES_NAMES
                         then replicate 16 (CHR 0x01) else [])\<rparr>"

definition ch_graph :: "64 word \<Rightarrow> 32 word \<Rightarrow> hsgr_file" where
  "ch_graph metrics connectivity =
     \<lparr>hsgr_checksum = 0x1234, hsgr_num_nodes = 0, hsgr_num_edges = 3,
      hsgr_num_metrics = metrics, hsgr_connectivity_checksum = connectivity\<rparr>"

text \<open>
  Input files with a CH graph file and a names file that the reader rejects, in the sizing
  pass for its fingerprint and in the populate pass as unreadable; a cell-metrics file
  that declares \<open>metrics\<close> metrics with empty vectors.
\<close>

definition rejected_names_inputs :: "64 word \<Rightarrow> 32 word \<Rightarrow> inputs" where
  "rejected_names_inputs metrics connectivity =
     minimal_inputs
       \<lparr>failure := [Sizing File_names \<mapsto> BadFingerprint, Populating File_names \<mapsto> CannotRead],
        hsgr := Some (ch_graph metrics connectivity)\<rparr>"

definition cell_metrics_of :: "64 word \<Rightarrow> cell_metrics_file" where
  "cell_metrics_of metrics =
     \<lparr>num_metric = metrics, weights_count = (\<lambda>_. 0), durations_count = (\<lambda>_. 0)\<rparr>"

text \<open>
  Two environments on the minimal input files: one in which the monitor's mutex is acquired
  in time, one in which the timed lock fails. \<open>live_system r t\<close> is a system whose monitor
  holds \<open>{r, t}\<close> and in which region \<open>r\<close> exists.
\<close>

definition example_env :: environment where
  "example_env =
     \<lparr>env_abi = example_abi, env_inputs = minimal_inputs,
      datastore_lock_contended = False, mlockall_fails = False,
      region_address = 0x7F0000000000, timed_lock_acquired = True\<rparr>"

definition stuck_env :: environment where
  "stuck_env = example_env\<lparr>timed_lock_acquired := False\<rparr>"

definition live_system :: "SharedDataType \<Rightarrow> 32 word \<Rightarrow> system" where
  "live_system r t =
     \<lparr>monitor = Some \<lparr>region = r, timestamp = t\<rparr>,
      regions = (\<lambda>_. None)(r \<mapsto> \<lparr>region_size = 4096, region_layout = DataLayout_init,
                                      region_memory = zero_memory\<rparr>),
      trace = []\<rparr>"

text \<open>
  The layout that the sizing pass computes for the minimal input files, the element type
  and entry count of each of its blocks, the base pointer of the payload area in the example
  environment, and the offsets of the block payloads from it.
\<close>

definition minimal_layout :: DataLayout where
  "minimal_layout =
     (case PopulateLayout example_abi minimal_inputs DataLayout_init of
        Inr layout \<Rightarrow> layout
      | Inl e \<Rightarrow> DataLayout_init)"

definition minimal_blocks :: "(ctype \<times> 64 word) list" where
  "minimal_blocks =
     [(T_char, 0), (T_EdgeBasedNode, 0), (T_NodeBasedEdgeAnnotation, 0),
      (T_QueryGraph_NodeArrayEntry, 0), (T_QueryGraph_EdgeArrayEntry, 0), (T_unsigned, 0),
      (T_unsigned, 0), (T_unsigned, 0), (T_unsigned, 0), (T_unsigned, 0), (T_unsigned, 0),
      (T_unsigned, 0), (T_unsigned, 0), (T_Coordinate, 0), (T_PackedOSMIDs_block, 0),
      (T_TurnInstruction, 0), (T_EntryClassID, 0), (T_RTreeNode, 0), (T_uint64, 0),
      (T_unsigned, 0), (T_NodeID, 0), (T_SegmentWeight_block, 0),
      (T_SegmentWeight_block, 0), (T_SegmentDuration_block, 0),
      (T_SegmentDuration_block, 0), (T_DatasourceID, 0), (T_DatasourceID, 0),
      (T_unsigned, 0), (T_char, 0), (T_char, 20), (T_Datasources, 1),
      (T_ProfileProperties, 1), (T_BearingClassID, 0), (T_unsigned, 0),
      (T_RangeTable_BlockT, 0), (T_DiscreteBearing, 0), (T_EntryClass, 0),
      (T_LaneDataID, 0), (T_TurnBearing, 0), (T_TurnBearing, 0), (T_LaneTupleIdPair, 0),
      (T_uint32, 0), (T_TurnLaneMask, 0), (T_TurnPenalty, 0), (T_TurnPenalty, 0),
      (T_LevelData, 0), (T_PartitionID, 0), (T_CellID, 0), (T_char, 0), (T_char, 0),
      (T_char, 0), (T_char, 0), (T_char, 0), (T_char, 0), (T_char, 0), (T_char, 0),
      (T_char, 0), (T_char, 0), (T_char, 0), (T_char, 0), (T_char, 0), (T_char, 0),
      (T_char, 0), (T_char, 0), (T_char, 0), (T_char, 0), (T_char, 0), (T_char, 0),
      (T_MLGraph_NodeArrayEntry, 0), (T_MLGraph_EdgeArrayEntry, 0),
      (T_MLGraph_EdgeOffset, 0), (T_StorageManeuverOverride, 0), (T_NodeID, 0)]"

definition minimal_base :: addr where
  "minimal_base = region_address example_env + sizeof_DataLayout example_abi"

definition minimal_offsets :: "64 word list" where
  "minimal_offsets =
     [4, 12, 20, 28, 36, 44, 52, 60, 68, 76, 84, 92, 100, 108, 120, 128, 136, 144, 152, 160,
      168, 176, 184, 192, 200, 208, 216, 224, 232, 240, 268, 296, 320, 328, 336, 344, 352,
      360, 368, 376, 384, 392, 400, 408, 416, 424, 432, 440, 448, 456, 464, 472, 480, 488,
      496, 504, 512, 520, 528, 536, 544, 552, 560, 568, 576, 584, 592, 600, 608, 616, 624,
      632, 640]"

section \<open>Properties of the layout\<close>

subsection \<open>Alignment by masking is rounding up\<close>

lemma and_not_mask_pd: "(x::'a::len word) AND NOT (mask k) = push_bit k (drop_bit k x)"
  by (rule bit_eqI) (auto simp add: bit_simps)

lemma round_nat:
  assumes "k \<le> 64"
  shows "((U mod 2^64) div 2^k * 2^k) mod 2^64 = (U div 2^k * 2^k) mod (2^64::nat)"
proof -
  have e: "(2::nat)^64 = 2^k * 2^(64-k)"
    using assms by (simp flip: power_add)
  have "(U mod (2^k * 2^(64-k))) div 2^k = (U div 2^k) mod 2^(64-k)"
    by (metis drop_bit_eq_div drop_bit_take_bit e take_bit_eq_mod)
  moreover have "((U div 2^k) mod 2^(64-k)) * 2^k = (U div 2^k * 2^k) mod (2^k * 2^(64-k))"
    by simp
  ultimately show ?thesis
    unfolding e by simp
qed

lemma word_pred_plus: "(p::64 word) - 1 + 2 ^ k = of_nat (unat p + 2 ^ k - 1)"
proof -
  have "unat p + 2 ^ k - 1 = unat p + (2 ^ k - 1)" by simp
  then have "(of_nat (unat p + 2 ^ k - 1) :: 64 word) = of_nat (unat p) + of_nat (2 ^ k - 1)"
    by (simp only: of_nat_add)
  also have "(of_nat (2 ^ k - 1) :: 64 word) = 2 ^ k - 1"
    by (simp add: of_nat_diff)
  finally show ?thesis by simp
qed

lemma unat_align: 
  assumes "k < 64" 
  shows "unat (align (2^k) p) = ((unat p + 2^k - 1) div 2^k * 2^k) mod 2^64"
proof -
  have "unat (align (2^k) p) = take_bit 64 (push_bit k (drop_bit k (unat (of_nat (unat p + 2 ^ k - 1) :: 64 word))))"
    unfolding align_def minus_exp_eq_not_mask and_not_mask_pd word_pred_plus
    by (simp add: unsigned_push_bit_eq unat_drop_bit_eq)
  also have "\<dots> = ((unat p + 2^k - 1) mod 2^64 div 2^k * 2^k) mod 2^64"
    by (simp add: unat_of_nat take_bit_eq_mod push_bit_eq_mult drop_bit_eq_div)
  finally show ?thesis using round_nat[of k] assms by simp
qed

lemma round_up_bounds:
  assumes "0 < a"
  shows "n \<le> round_up a n" and "round_up a n < n + a" and "a dvd round_up a n"
proof -
  have e: "(n + a - 1) div a * a + (n + a - 1) mod a = n + a - 1"
    by simp
  have r: "(n + a - 1) mod a < a"
    using assms by simp
  from e r show "n \<le> round_up a n"
    unfolding round_up_def by linarith
  from e assms show "round_up a n < n + a"
    unfolding round_up_def by linarith
  show "a dvd round_up a n"
    by (simp add: round_up_def)
qed

lemma of_nat_mod_64: "(of_nat (n mod 2 ^ 64) :: 64 word) = of_nat n"
  by (simp add: word_of_nat_eq_iff take_bit_eq_mod)

lemma align_round_up:
  assumes "k < 64"
  shows "align (2 ^ k) p = of_nat (round_up (2 ^ k) (unat p))"
proof -
  have "align (2 ^ k) p = of_nat (unat (align (2 ^ k) p))"
    by simp
  also have "\<dots> = of_nat (round_up (2 ^ k) (unat p))"
    unfolding unat_align[OF assms] round_up_def[symmetric] by (rule of_nat_mod_64)
  finally show ?thesis .
qed

lemma align_offset:
  assumes "k < 64"
  shows "\<exists>d. d < 2 ^ k \<and> align (2 ^ k) p = p + of_nat d"
proof -
  let ?R = "round_up (2 ^ k) (unat p)"
  have le: "unat p \<le> ?R" and lt: "?R < unat p + 2 ^ k"
    using round_up_bounds(1,2)[of "2 ^ k" "unat p"] by simp_all
  have "(of_nat ?R :: 64 word) = of_nat (unat p + (?R - unat p))"
    using le by simp
  also have "\<dots> = p + of_nat (?R - unat p)"
    by (simp only: of_nat_add) simp
  finally have "align (2 ^ k) p = p + of_nat (?R - unat p)"
    unfolding align_round_up[OF assms] .
  moreover have "?R - unat p < 2 ^ k"
    using le lt by (simp add: less_diff_conv2)
  ultimately show ?thesis by blast
qed

lemma align_aligned: "take_bit k (align (2 ^ k) p) = 0"
  unfolding align_def minus_exp_eq_not_mask and_not_mask_pd
  by (simp add: take_bit_push_bit)


lemma unat_exp_64:
  assumes "k < 64"
  shows "unat (2 ^ k :: 64 word) = 2 ^ k"
proof -
  have lt: "(2::nat) ^ k < 2 ^ LENGTH(64)"
    by (rule power_strict_increasing) (use assms in simp_all)
  have "unat (of_nat (2 ^ k) :: 64 word) = 2 ^ k mod 2 ^ LENGTH(64)"
    by (rule unat_of_nat)
  also have "\<dots> = 2 ^ k"
    using lt by (rule mod_less)
  finally show ?thesis
    by simp
qed

lemma pow2_alignE: "pow2_align a \<Longrightarrow> (\<And>k. k < 64 \<Longrightarrow> a = 2 ^ k \<Longrightarrow> unat a = 2 ^ k \<Longrightarrow> P) \<Longrightarrow> P"
  by (auto simp: pow2_align_def unat_exp_64)

lemma align_round_up_ptr: "pow2_align a \<Longrightarrow> align a p = round_up_ptr a p"
  by (erule pow2_alignE) (simp add: round_up_ptr_def align_round_up)

lemma align_pad:
  assumes "pow2_align a"
  obtains d where "d < unat a" and "align a p = p + of_nat d"
  using assms align_offset by (elim pow2_alignE) (metis)

lemma fold_skip_Suc: "fold (skip_block l) [0..<Suc i] p = skip_block l i (fold (skip_block l) [0..<i] p)"
  by simp

lemma fold_skip_replay:
  "(\<forall>j<i. pow2_align (entry_align (blocks l j))) \<Longrightarrow> fold (skip_block l) [0..<i] base = replay_blocks l i base"
  by (induction i) (simp_all add: skip_block_def sizeof_CANARY_def CANARY_def GetBlockSize_def align_round_up_ptr)

lemma GetAlignedBlockPtr_replay:
  "(\<forall>j\<le>bid. pow2_align (entry_align (blocks l j))) \<Longrightarrow> GetAlignedBlockPtr l base bid = aligned_offset_of l base bid"
  by (simp add: GetAlignedBlockPtr_def aligned_offset_of_def fold_skip_replay sizeof_CANARY_def CANARY_def align_round_up_ptr)

lemma fold_plus_sum_list: "fold (\<lambda>i r. r + f i) xs (a::'a::comm_monoid_add) = a + sum_list (map f xs)"
  by (induction xs arbitrary: a) (simp_all add: add.assoc)

lemma GetSizeOfLayout_sum:
  "GetSizeOfLayout l = sum_list (map (\<lambda>i. 2 * 4 + byte_size (blocks l i) + entry_align (blocks l i)) [0..<NUM_BLOCKS])"
  unfolding GetSizeOfLayout_def fold_plus_sum_list by (simp add: sizeof_CANARY_def CANARY_def GetBlockSize_def)


lemma skip_block_offset:
  assumes "pow2_align (entry_align (blocks l i))"
  obtains d where "skip_block l i p = p + of_nat d" and "d < block_bound l i"
    and "d = 4 + (d - 8 - unat (byte_size (blocks l i))) + unat (byte_size (blocks l i)) + 4"
proof -
  obtain e where e: "e < unat (entry_align (blocks l i))"
    and a: "align (entry_align (blocks l i)) (p + 4) = p + 4 + of_nat e"
    using assms by (rule align_pad)
  let ?d = "4 + e + unat (byte_size (blocks l i)) + 4"
  have "skip_block l i p = p + of_nat ?d"
    by (simp add: skip_block_def sizeof_CANARY_def CANARY_def GetBlockSize_def a)
  moreover have "?d < block_bound l i"
    using e by (simp add: block_bound_def)
  ultimately show ?thesis
    by (rule that) simp
qed

lemma fold_skip_offset:
  assumes "\<forall>j\<in>set xs. pow2_align (entry_align (blocks l j))"
  shows "\<exists>d. fold (skip_block l) xs p = p + of_nat d \<and> d \<le> sum_list (map (block_bound l) xs)"
  using assms
proof (induction xs arbitrary: p)
  case Nil
  show ?case by simp
next
  case (Cons x xs)
  from Cons.prems obtain e where e: "skip_block l x p = p + of_nat e" "e < block_bound l x"
    by (auto intro: skip_block_offset[of l x p])
  from Cons.prems Cons.IH[of "skip_block l x p"] obtain d
    where d: "fold (skip_block l) xs (skip_block l x p) = skip_block l x p + of_nat d"
      "d \<le> sum_list (map (block_bound l) xs)"
    by auto
  have "fold (skip_block l) (x # xs) p = skip_block l x p + of_nat d"
    by (simp add: d(1))
  then have "fold (skip_block l) (x # xs) p = p + of_nat (e + d)"
    by (simp add: e(1))
  moreover have "e + d \<le> sum_list (map (block_bound l) (x # xs))"
    using e(2) d(2) by simp
  ultimately show ?case by blast
qed

lemma unat_of_nat_64: "n < 2 ^ 64 \<Longrightarrow> unat (of_nat n :: 64 word) = n"
  by (simp add: unat_of_nat)

lemma unat_offset_64: "n < 2 ^ 64 \<Longrightarrow> unat ((p::64 word) + of_nat n - p) = n"
  by (simp add: unat_of_nat)

lemma GetSizeOfLayout_of_nat: "GetSizeOfLayout l = of_nat (layout_bound l)"
proof -
  have "\<And>xs. sum_list (map (\<lambda>i. 2 * 4 + byte_size (blocks l i) + entry_align (blocks l i)) xs)
      = (of_nat (sum_list (map (block_bound l) xs)) :: 64 word)"
    subgoal for xs by (induction xs) (simp_all add: block_bound_def)
    done
  then show ?thesis
    by (simp only: GetSizeOfLayout_sum layout_bound_def)
qed

lemma unat_GetSizeOfLayout: "layout_bound l < 2 ^ 64 \<Longrightarrow> unat (GetSizeOfLayout l) = layout_bound l"
  by (simp only: GetSizeOfLayout_of_nat unat_of_nat_64)

lemma layout_end_bound:
  assumes "\<forall>i\<in>{0..<NUM_BLOCKS}. pow2_align (entry_align (blocks l i))"
    and "layout_bound l < 2 ^ 64"
  shows "unat (layout_end l base - base) \<le> unat (GetSizeOfLayout l)"
proof -
  from assms(1) obtain d where d: "layout_end l base = base + of_nat d" "d \<le> layout_bound l"
    unfolding layout_end_def layout_bound_def
    using fold_skip_offset[of "[0..<NUM_BLOCKS]" l base] by auto
  from d(2) assms(2) have "d < 2 ^ 64"
    by (rule le_less_trans)
  then have "unat (layout_end l base - base) = d"
    unfolding d(1) by (rule unat_offset_64)
  with d(2) show ?thesis
    by (simp only: unat_GetSizeOfLayout[OF assms(2)])
qed









lemma pow2_align_exp: "k < 64 \<Longrightarrow> pow2_align (2 ^ k)"
  by (auto simp: pow2_align_def)

lemma pow2_align_1 [simp]: "pow2_align 1"
  using pow2_align_exp[of 0] by simp

lemma pow2_align_4 [simp]: "pow2_align 4"
  using pow2_align_exp[of 2] by simp

lemma pow2_align_8 [simp]: "pow2_align 8"
  using pow2_align_exp[of 3] by simp

lemmas layout_eval = GetAlignedBlockPtr_def skip_block_def align_def sizeof_CANARY_def CANARY_def
  GetBlockSize_def GetSizeOfLayout_def layout_end_def layout_bound_def block_bound_def
  payload_offset_def upt_rec[of _ "numeral n" for n]

lemma char_layout_valid: "valid_alignments (char_layout n)"
  by (simp add: valid_alignments_def char_layout_def)


lemma mixed_layout_valid: "valid_alignments mixed_layout"
  by (simp add: valid_alignments_def mixed_layout_def)

lemma mixed_layout_bound: "layout_bound mixed_layout = 896"
  by (simp add: layout_eval mixed_layout_def)

subsection \<open>The claims about the layout\<close>

text \<open>
  C6. For every layout with positive power-of-two alignments, every block identifier and
  every base pointer, the pointer computed by \<open>GetAlignedBlockPtr\<close> is the one of the
  replay as the specification words it: from the base, for each earlier block a canary,
  rounding up to its alignment, its byte size, a canary; then a canary and rounding up to
  the alignment of the block asked for.
\<close>

theorem GetAlignedBlockPtr_is_replay:
  assumes "valid_alignments l" and "bid < NUM_BLOCKS"
  shows "GetAlignedBlockPtr l base bid = aligned_offset_of l base bid"
proof -
  from assms have "\<forall>j\<le>bid. pow2_align (entry_align (blocks l j))"
    by (auto simp: valid_alignments_def)
  then show ?thesis
    by (rule GetAlignedBlockPtr_replay)
qed

theorem GetAlignedBlockPtr_is_replay_witness:
  "GetAlignedBlockPtr mixed_layout 4099 R_SEARCH_TREE = aligned_offset_of mixed_layout 4099 R_SEARCH_TREE
   \<and> GetAlignedBlockPtr mixed_layout 4099 R_SEARCH_TREE = 4264"
  using GetAlignedBlockPtr_is_replay[of mixed_layout R_SEARCH_TREE 4099] mixed_layout_valid
  by (simp add: layout_eval mixed_layout_def)

text \<open>
  C5 (as amended). For every layout with positive power-of-two alignments,
  \<open>GetSizeOfLayout\<close> returns the 64-bit sum over all blocks of two canaries, the byte
  size and the alignment, that is, the sum taken over the unbounded numbers modulo
  \<open>2^64\<close>, whether or not it wraps around. Whenever the unbounded sum is below \<open>2^64\<close>,
  the value returned is this sum and, for every base address, the end of the last block in
  the replay (its trailing canary included) lies at most that many bytes behind the base.
\<close>

theorem GetSizeOfLayout_upper_bound:
  assumes "valid_alignments l"
  shows "GetSizeOfLayout l =
           sum_list (map (\<lambda>i. 2 * sizeof_CANARY + GetBlockSize l i + entry_align (blocks l i))
                       [0..<NUM_BLOCKS])
         \<and> unat (GetSizeOfLayout l) = layout_bound l mod 2 ^ 64
         \<and> (layout_bound l < 2 ^ 64 \<longrightarrow>
              unat (GetSizeOfLayout l) = layout_bound l
              \<and> unat (layout_end l base - base) \<le> unat (GetSizeOfLayout l))"
proof (intro conjI impI)
  show "GetSizeOfLayout l =
           sum_list (map (\<lambda>i. 2 * sizeof_CANARY + GetBlockSize l i + entry_align (blocks l i))
                       [0..<NUM_BLOCKS])"
    unfolding GetSizeOfLayout_def fold_plus_sum_list by simp
  show "unat (GetSizeOfLayout l) = layout_bound l mod 2 ^ 64"
    by (simp only: GetSizeOfLayout_of_nat unat_of_nat) simp
  assume b: "layout_bound l < 2 ^ 64"
  then show "unat (GetSizeOfLayout l) = layout_bound l"
    by (rule unat_GetSizeOfLayout)
  show "unat (layout_end l base - base) \<le> unat (GetSizeOfLayout l)"
    using assms b unfolding valid_alignments_def by (rule layout_end_bound)
qed

theorem GetSizeOfLayout_upper_bound_witness:
  "valid_alignments mixed_layout \<and> layout_bound mixed_layout = 896
   \<and> GetSizeOfLayout mixed_layout = 896 \<and> unat (layout_end mixed_layout 4099 - 4099) = 609
   \<and> unat (layout_end mixed_layout 4099 - 4099) \<le> unat (GetSizeOfLayout mixed_layout)
   \<and> valid_alignments (char_layout (- 600))
   \<and> unat (GetSizeOfLayout (char_layout (- 600))) = layout_bound (char_layout (- 600)) mod 2 ^ 64"
proof -
  have "layout_bound mixed_layout < 2 ^ 64"
    by (simp add: mixed_layout_bound)
  with mixed_layout_valid
  have "unat (GetSizeOfLayout mixed_layout) = layout_bound mixed_layout
        \<and> unat (layout_end mixed_layout 4099 - 4099) \<le> unat (GetSizeOfLayout mixed_layout)"
    using GetSizeOfLayout_upper_bound[of mixed_layout 4099] by blast
  moreover have "GetSizeOfLayout mixed_layout = 896"
    by (simp add: layout_eval mixed_layout_def)
  moreover have "unat (layout_end mixed_layout 4099 - 4099) = 609"
    by (simp add: layout_eval mixed_layout_def)
  moreover have "unat (GetSizeOfLayout (char_layout (- 600))) = layout_bound (char_layout (- 600)) mod 2 ^ 64"
    using GetSizeOfLayout_upper_bound[of "char_layout (- 600)" 4096] char_layout_valid by blast
  ultimately show ?thesis
    using mixed_layout_valid char_layout_valid mixed_layout_bound by simp
qed

text \<open>
  C5 as stated fails when the 64-bit accumulator wraps around: with \<open>2^64 - 600\<close> bytes
  of names and all other blocks empty, \<open>GetSizeOfLayout\<close> returns 57 while the replay
  ends \<open>2^64 - 16\<close> bytes behind the base.
\<close>

theorem GetSizeOfLayout_overflow_counterexample:
  "valid_alignments (char_layout (- 600))
   \<and> GetSizeOfLayout (char_layout (- 600)) = 57
   \<and> unat (layout_end (char_layout (- 600)) 4096 - 4096) = 18446744073709551600
   \<and> \<not> unat (layout_end (char_layout (- 600)) 4096 - 4096) \<le> unat (GetSizeOfLayout (char_layout (- 600)))"
  by (simp add: char_layout_valid) (simp add: layout_eval char_layout_def)




section \<open>Properties of the sequencing of blocks and of the reader failures\<close>

lemma reader_error_distinct [simp]:
  "reader_error pt rf \<noteq> TooManyMetrics n"
  "reader_error pt rf \<noteq> ChecksumMismatch a b c d"
  "TooManyMetrics n \<noteq> reader_error pt rf"
  "ChecksumMismatch a b c d \<noteq> reader_error pt rf"
  by (simp_all add: reader_error_def split: reader_failure.splits)

lemma plain_block_Inl [simp]: "plain_block f s \<noteq> Inl e"
  by (simp add: plain_block_def)

lemma plain_block_Inr [simp]: "(plain_block f s = Inr s') = (s' = f s)"
  by (auto simp: plain_block_def)

lemma read_block_Inl:
  "(read_block inp pt f s = Inl e) = (\<exists>rf. failure inp pt = Some rf \<and> e = reader_error pt rf)"
  by (auto simp: read_block_def split: option.splits)

lemma read_block_Inr:
  "(read_block inp pt f s = Inr s') = (failure inp pt = None \<and> s' = f s)"
  by (auto simp: read_block_def split: option.splits)

lemma optional_block_Inl:
  "(optional_block inp b pt f s = Inl e) = (b \<and> (\<exists>rf. failure inp pt = Some rf \<and> e = reader_error pt rf))"
  by (simp add: optional_block_def read_block_Inl)

lemma optional_block_Inr:
  "(optional_block inp b pt f s = Inr s') = ((b \<longrightarrow> failure inp pt = None) \<and> s' = f s)"
  by (auto simp: optional_block_def read_block_Inr)

lemma run_steps_Inl:
  "run_steps steps s = Inl e \<Longrightarrow> \<exists>step\<in>set steps. \<exists>s'. step s' = Inl e"
  by (induction steps arbitrary: s) (auto split: sum.splits)


text \<open>
  When the outcome of every block does not depend on the state it starts from, the outcome
  of the sequence is that of the first block that fails.
\<close>

lemma run_steps_succeeds:
  assumes "\<And>s. (\<exists>s'. step s = Inr s') = P" and "\<And>s. (\<exists>t. run_steps steps s = Inr t) = Q"
  shows "(\<exists>t. run_steps (step # steps) s = Inr t) = (P \<and> Q)"
proof (cases "step s")
  case (Inl e)
  then show ?thesis using assms(1)[of s] by simp
next
  case (Inr s')
  then show ?thesis using assms(1)[of s] assms(2)[of s'] by simp
qed

lemma run_steps_fails:
  assumes "\<And>s. (step s = Inl e) = P" and "\<And>s. (\<exists>s'. step s = Inr s') = P'"
    and "\<And>s. (run_steps steps s = Inl e) = Q"
  shows "(run_steps (step # steps) s = Inl e) = (P \<or> (P' \<and> Q))"
proof (cases "step s")
  case (Inl e')
  then show ?thesis using assms(1)[of s] assms(2)[of s] by auto
next
  case (Inr s')
  then show ?thesis using assms(1)[of s] assms(2)[of s] assms(3)[of s'] by auto
qed

lemma run_steps_Nil_succeeds: "(\<exists>t. run_steps [] s = Inr t) = True"
  by simp

lemma read_block_succeeds: "(\<exists>s'. read_block inp pt f s = Inr s') = reads_ok inp [pt]"
  by (simp add: read_block_Inr reads_ok_def)

lemma plain_block_succeeds: "(\<exists>s'. plain_block f s = Inr s') = True"
  by simp

lemma optional_block_succeeds:
  "(\<exists>s'. optional_block inp (opt \<noteq> None) pt f s = Inr s') = reads_ok inp (if_exists opt pt)"
  by (cases opt) (simp_all add: optional_block_Inr reads_ok_def if_exists_def)

lemma reads_ok_append: "reads_ok inp (xs @ ys) = (reads_ok inp xs \<and> reads_ok inp ys)"
  by (simp add: reads_ok_def)

lemma reads_ok_Cons: "reads_ok inp (x # xs) = (failure inp x = None \<and> reads_ok inp xs)"
  by (simp add: reads_ok_def)

lemma reads_ok_Nil: "reads_ok inp [] = True"
  by (simp add: reads_ok_def)

lemmas reads_ok_simps = reads_ok_append reads_ok_Cons reads_ok_Nil

lemma reads_ok_no_failure: "failure inp = (\<lambda>_. None) \<Longrightarrow> reads_ok inp pts"
  by (simp add: reads_ok_def list_all_iff)

lemma minimal_inputs_reads_ok [simp]:
  "reads_ok minimal_inputs pts"
  "reads_ok (minimal_inputs\<lparr>hsgr := h\<rparr>) pts"
  "reads_ok (minimal_inputs\<lparr>hsgr := h, cell_metrics := c\<rparr>) pts"
  by (rule reads_ok_no_failure, simp add: minimal_inputs_def)+


section \<open>Properties of the sizing pass\<close>

lemma blocks_SetBlock [simp]: "blocks (SetBlock l b x) j = (if j = b then x else blocks l j)"
  by (simp add: SetBlock_def)

lemma layout_before_hsgr_succeeds:
  "(\<exists>l'. layout_before_hsgr abi inp l = Inr l') =
     reads_ok inp (map Sizing [File_names, File_tls, File_edges, File_ebg_nodes])"
  unfolding layout_before_hsgr_def
  by (simp only: run_steps_succeeds[OF plain_block_succeeds] run_steps_succeeds[OF read_block_succeeds]
      run_steps_Nil_succeeds)
     (simp add: reads_ok_simps)

lemma layout_after_hsgr_succeeds:
  "(\<exists>l'. layout_after_hsgr abi inp l = Inr l') =
     reads_ok inp
       (map Sizing
          [File_ramIndex, File_timestamp, File_turn_weight_penalties,
           File_turn_duration_penalties, File_nbg_nodes, File_geometry, File_icd, File_tld,
           File_maneuver_overrides]
        @ if_exists (partition inp) (Sizing File_partition)
        @ if_exists (cells inp) (Sizing File_cells))"
  unfolding layout_after_hsgr_def
  by (simp only: run_steps_succeeds[OF plain_block_succeeds] run_steps_succeeds[OF read_block_succeeds]
      run_steps_succeeds[OF optional_block_succeeds] run_steps_Nil_succeeds)
     (simp add: reads_ok_simps)

lemma layout_before_hsgr_Inl:
  "layout_before_hsgr abi inp l = Inl e \<Longrightarrow> \<exists>pt rf. e = reader_error pt rf"
  unfolding layout_before_hsgr_def
  by (drule run_steps_Inl) (auto simp: read_block_Inl)

lemma layout_after_hsgr_Inl:
  "layout_after_hsgr abi inp l = Inl e \<Longrightarrow> \<exists>pt rf. e = reader_error pt rf"
  unfolding layout_after_hsgr_def
  by (drule run_steps_Inl) (auto simp: read_block_Inl optional_block_Inl)

lemma layout_hsgr_Inl:
  "(layout_hsgr abi inp l = Inl e) =
     (\<exists>f. hsgr inp = Some f \<and>
        (case failure inp (Sizing File_hsgr) of
           Some rf \<Rightarrow> e = reader_error (Sizing File_hsgr) rf
         | None \<Rightarrow> e = TooManyMetrics 8 \<and> 8 < unat (hsgr_num_metrics f)))"
  by (auto simp: layout_hsgr_def NUM_METRICS_def Let_def split: option.splits)

lemma layout_cell_metrics_Inl:
  "(layout_cell_metrics abi inp l = Inl e) =
     (\<exists>f. cell_metrics inp = Some f \<and>
        (case failure inp (Sizing File_cell_metrics) of
           Some rf \<Rightarrow> e = reader_error (Sizing File_cell_metrics) rf
         | None \<Rightarrow>
             if 8 < unat (num_metric f) then e = TooManyMetrics 8
             else 0 < unat (num_metric f)
                  \<and> (\<exists>rf. failure inp Sizing_metric_vectors = Some rf
                           \<and> e = reader_error Sizing_metric_vectors rf)))"
  by (auto simp: layout_cell_metrics_def NUM_METRICS_def Let_def split: option.splits)

lemma layout_hsgr_succeeds:
  "(\<exists>l'. layout_hsgr abi inp l = Inr l') =
     (reads_ok inp (if_exists (hsgr inp) (Sizing File_hsgr))
      \<and> \<not> (\<exists>f. hsgr inp = Some f \<and> 8 < unat (hsgr_num_metrics f)))"
  by (auto simp: layout_hsgr_def NUM_METRICS_def Let_def reads_ok_simps if_exists_def
      split: option.splits)

lemma layout_cell_metrics_succeeds:
  "(\<exists>l'. layout_cell_metrics abi inp l = Inr l') =
     (reads_ok inp
        (case cell_metrics inp of
           Some reader \<Rightarrow>
             Sizing File_cell_metrics
             # (if 0 < unat (num_metric reader) then [Sizing_metric_vectors] else [])
         | None \<Rightarrow> [])
      \<and> \<not> (\<exists>f. cell_metrics inp = Some f \<and> 8 < unat (num_metric f)))"
  by (auto simp: layout_cell_metrics_def NUM_METRICS_def Let_def reads_ok_simps
      split: option.splits)

lemma layout_hsgr_TooManyMetrics:
  "(layout_hsgr abi inp l = Inl (TooManyMetrics n)) =
     (n = 8 \<and> failure inp (Sizing File_hsgr) = None
      \<and> (\<exists>f. hsgr inp = Some f \<and> 8 < unat (hsgr_num_metrics f)))"
  unfolding layout_hsgr_Inl by (auto split: option.splits)

lemma layout_cell_metrics_TooManyMetrics:
  "(layout_cell_metrics abi inp l = Inl (TooManyMetrics n)) =
     (n = 8 \<and> failure inp (Sizing File_cell_metrics) = None
      \<and> (\<exists>f. cell_metrics inp = Some f \<and> 8 < unat (num_metric f)))"
  unfolding layout_cell_metrics_Inl by (auto split: option.splits)

lemma layout_before_hsgr_TooManyMetrics:
  "(layout_before_hsgr abi inp l = Inl (TooManyMetrics n)) = False"
  using layout_before_hsgr_Inl[of abi inp l "TooManyMetrics n"] by auto

lemma layout_after_hsgr_TooManyMetrics:
  "(layout_after_hsgr abi inp l = Inl (TooManyMetrics n)) = False"
  using layout_after_hsgr_Inl[of abi inp l "TooManyMetrics n"] by auto

lemma layout_mldgr_TooManyMetrics:
  "(run_steps [optional_block inp b pt f] l = Inl (TooManyMetrics n)) = False"
  by (auto simp: optional_block_Inl split: sum.splits)

lemma PopulateLayout_succeeds:
  "(\<exists>l'. PopulateLayout abi inp l = Inr l') =
     (reads_ok inp (sizing_reads inp)
      \<and> \<not> ((\<exists>f. hsgr inp = Some f \<and> 8 < unat (hsgr_num_metrics f))
          \<or> (\<exists>f. cell_metrics inp = Some f \<and> 8 < unat (num_metric f))))"
  unfolding PopulateLayout_def
  by (simp only: run_steps_succeeds[OF layout_before_hsgr_succeeds]
      run_steps_succeeds[OF layout_hsgr_succeeds] run_steps_succeeds[OF layout_after_hsgr_succeeds]
      run_steps_succeeds[OF layout_cell_metrics_succeeds]
      run_steps_succeeds[OF optional_block_succeeds] run_steps_Nil_succeeds)
     (auto simp: sizing_reads_def reads_ok_simps)

lemma PopulateLayout_TooManyMetrics:
  "(PopulateLayout abi inp l = Inl (TooManyMetrics n)) =
     (n = 8 \<and>
      ((reads_ok inp sizing_reads_to_hsgr_test
        \<and> (\<exists>f. hsgr inp = Some f \<and> 8 < unat (hsgr_num_metrics f)))
       \<or> (reads_ok inp (sizing_reads_to_cell_metrics_test inp)
          \<and> \<not> (\<exists>f. hsgr inp = Some f \<and> 8 < unat (hsgr_num_metrics f))
          \<and> (\<exists>f. cell_metrics inp = Some f \<and> 8 < unat (num_metric f)))))"
  unfolding PopulateLayout_def
  by (simp only: run_steps_fails[OF layout_before_hsgr_TooManyMetrics layout_before_hsgr_succeeds]
      run_steps_fails[OF layout_hsgr_TooManyMetrics layout_hsgr_succeeds]
      run_steps_fails[OF layout_after_hsgr_TooManyMetrics layout_after_hsgr_succeeds]
      run_steps_fails[OF layout_cell_metrics_TooManyMetrics layout_cell_metrics_succeeds]
      layout_mldgr_TooManyMetrics)
     (auto simp: sizing_reads_to_hsgr_test_def sizing_reads_to_cell_metrics_test_def
        reads_ok_simps if_exists_def)











text \<open>
  C8 as stated fails twice. With a names file whose fingerprint the reader rejects, sizing
  ends with that error before it looks at the CH graph file, although the file declares
  9 metrics. And a CH graph file that declares exactly 8 metrics does not make sizing
  succeed when the cell-metrics file declares 9: the condition is on both files together.
\<close>

theorem PopulateLayout_metrics_counterexample:
  "hsgr (rejected_names_inputs 9 0xAAA) = Some (ch_graph 9 0xAAA)
   \<and> unat (hsgr_num_metrics (ch_graph 9 0xAAA)) = 9
   \<and> PopulateLayout example_abi (rejected_names_inputs 9 0xAAA) DataLayout_init
       = Inl (FingerprintMismatch File_names)
   \<and> unat (hsgr_num_metrics (ch_graph 8 0xAAA)) = 8
   \<and> unat (num_metric (cell_metrics_of 9)) = 9
   \<and> PopulateLayout example_abi
        (minimal_inputs\<lparr>hsgr := Some (ch_graph 8 0xAAA), cell_metrics := Some (cell_metrics_of 9)\<rparr>)
        DataLayout_init
       = Inl (TooManyMetrics 8)"
proof -
  have "PopulateLayout example_abi (rejected_names_inputs 9 0xAAA) DataLayout_init
       = Inl (FingerprintMismatch File_names)"
    by (simp add: PopulateLayout_def layout_before_hsgr_def plain_block_def read_block_def
        rejected_names_inputs_def reader_error_def file_of_def)
  moreover have "PopulateLayout example_abi
        (minimal_inputs\<lparr>hsgr := Some (ch_graph 8 0xAAA), cell_metrics := Some (cell_metrics_of 9)\<rparr>)
        DataLayout_init
       = Inl (TooManyMetrics 8)"
    by (simp add: PopulateLayout_TooManyMetrics cell_metrics_of_def ch_graph_def)
  ultimately show ?thesis
    by (simp add: rejected_names_inputs_def ch_graph_def cell_metrics_of_def)
qed

section \<open>Properties of the populate pass\<close>

lemma populate_before_hsgr_succeeds:
  "(\<exists>m'. populate_before_hsgr inp layout memory_ptr m = Inr m') =
     reads_ok inp populate_reads_before_hsgr"
  unfolding populate_before_hsgr_def
  by (simp only: run_steps_succeeds[OF plain_block_succeeds] run_steps_succeeds[OF read_block_succeeds]
      run_steps_Nil_succeeds)
     (simp add: reads_ok_simps populate_reads_before_hsgr_def)

lemma populate_mld_tables_succeeds:
  "(\<exists>m'. populate_mld_tables inp layout memory_ptr m = Inr m') =
     reads_ok inp
       (if_exists (partition inp) (Populating File_partition)
        @ if_exists (cells inp) (Populating File_cells)
        @ if_exists (cell_metrics inp) (Populating File_cell_metrics))"
  unfolding populate_mld_tables_def
  by (simp only: run_steps_succeeds[OF optional_block_succeeds] run_steps_Nil_succeeds)
     (simp add: reads_ok_simps)





lemma populate_hsgr_succeeds:
  "(\<exists>m'. populate_hsgr inp layout memory_ptr turns m = Inr m') =
     (reads_ok inp (if_exists (hsgr inp) (Populating File_hsgr))
      \<and> \<not> (\<exists>f. hsgr inp = Some f \<and> turns \<noteq> hsgr_connectivity_checksum f))"
  by (auto simp: populate_hsgr_def Let_def reads_ok_simps if_exists_def
      split: option.splits prod.splits)

lemma populate_mldgr_succeeds:
  "(\<exists>m'. populate_mldgr inp layout memory_ptr turns m = Inr m') =
     (reads_ok inp (if_exists (mldgr inp) (Populating File_mldgr))
      \<and> \<not> (\<exists>f. mldgr inp = Some f \<and> turns \<noteq> mldgr_connectivity_checksum f))"
  by (auto simp: populate_mldgr_def Let_def reads_ok_simps if_exists_def split: option.splits)






lemma PopulateData_succeeds:
  "(\<exists>m'. PopulateData inp layout memory_ptr m = Inr m') =
     (reads_ok inp (populate_reads inp)
      \<and> \<not> ((\<exists>f. hsgr inp = Some f \<and> edges_connectivity_checksum inp \<noteq> hsgr_connectivity_checksum f)
          \<or> (\<exists>f. mldgr inp = Some f \<and> edges_connectivity_checksum inp \<noteq> mldgr_connectivity_checksum f)))"
  unfolding PopulateData_def Let_def
  by (simp only: run_steps_succeeds[OF populate_before_hsgr_succeeds]
      run_steps_succeeds[OF populate_hsgr_succeeds] run_steps_succeeds[OF populate_mld_tables_succeeds]
      run_steps_succeeds[OF populate_mldgr_succeeds]
      run_steps_succeeds[OF read_block_succeeds] run_steps_Nil_succeeds)
     (auto simp: populate_reads_def reads_ok_simps)





text \<open>
  C2 as stated fails when a reader call raises before the comparison: with a names file
  that cannot be read, populate ends with that error, although the CH graph file exists
  and its connectivity checksum differs from the one of \<open>.osrm.edges\<close>.
\<close>

theorem PopulateData_checksum_mismatch_counterexample:
  "hsgr (rejected_names_inputs 1 0xBBB) = Some (ch_graph 1 0xBBB)
   \<and> edges_connectivity_checksum (rejected_names_inputs 1 0xBBB)
       \<noteq> hsgr_connectivity_checksum (ch_graph 1 0xBBB)
   \<and> PopulateData (rejected_names_inputs 1 0xBBB) mixed_layout 4096 zero_memory
       = Inl (IOFailure File_names)"
proof -
  have "PopulateData (rejected_names_inputs 1 0xBBB) mixed_layout 4096 zero_memory
       = Inl (IOFailure File_names)"
    by (simp add: PopulateData_def Let_def populate_before_hsgr_def plain_block_def read_block_def
        rejected_names_inputs_def reader_error_def file_of_def)
  then show ?thesis
    by (simp add: rejected_names_inputs_def ch_graph_def minimal_inputs_def)
qed

section \<open>Properties of the publisher\<close>

lemma log_event_simps [simp]:
  "monitor (log_event e s) = monitor s"
  "regions (log_event e s) = regions s"
  "trace (log_event e s) = trace s @ [e]"
  by (simp_all add: log_event_def)

lemma Monitor_construct_simps:
  "monitor (Monitor_construct init s) = Some (case monitor s of Some d \<Rightarrow> d | None \<Rightarrow> init)"
  "regions (Monitor_construct init s) = regions s"
  "trace (Monitor_construct init s) = trace s @ (case monitor s of Some d \<Rightarrow> [] | None \<Rightarrow> [Monitor_Created init])"
  by (simp_all add: Monitor_construct_def split: option.splits)

lemma Run_prepare_simps:
  "monitor (Run_prepare env s) = Some (Monitor_data s)"
  "regions (Run_prepare env s) = regions s"
  "\<exists>evs. trace (Run_prepare env s) = trace s @ evs
         \<and> (\<forall>r. Region_Opened r \<notin> set evs \<and> Region_Removed r \<notin> set evs \<and> Region_WaitForDetach r \<notin> set evs)"
  by (auto simp: Run_prepare_def Let_def Monitor_construct_simps Monitor_data_def split: option.splits)

lemma Monitor_data_Run_prepare: "Monitor_data (Run_prepare env s) = Monitor_data s"
  by (simp add: Monitor_data_def[of "Run_prepare env s"] Run_prepare_simps)

lemma next_region_of_neq: "r \<noteq> REGION_NONE \<Longrightarrow> next_region_of r \<noteq> r"
  by (cases r) (simp_all add: next_region_of_def)

lemma next_region_of_not_none: "next_region_of r \<noteq> REGION_NONE"
  by (simp add: next_region_of_def)

lemma remove_stale_simps:
  "monitor (remove_stale n s) = monitor s"
  "r \<noteq> n \<Longrightarrow> regions (remove_stale n s) r = regions s r"
  "\<exists>evs. trace (remove_stale n s) = trace s @ evs
         \<and> (\<forall>r. r \<noteq> n \<longrightarrow> Region_Opened r \<notin> set evs \<and> Region_Removed r \<notin> set evs \<and> Region_WaitForDetach r \<notin> set evs)"
  by (auto simp: remove_stale_def SharedMemory_Remove_def)

lemma makeSharedMemory_create_simps:
  "monitor (makeSharedMemory_create n b s) = monitor s"
  "r \<noteq> n \<Longrightarrow> regions (makeSharedMemory_create n b s) r = regions s r"
  "trace (makeSharedMemory_create n b s) = trace s @ [Region_Created n b]"
  by (simp_all add: makeSharedMemory_create_def)

lemma write_region_simps:
  "monitor (write_region n l m s) = monitor s"
  "r \<noteq> n \<Longrightarrow> regions (write_region n l m s) r = regions s r"
  "trace (write_region n l m s) = trace s"
  by (simp_all add: write_region_def)

lemma publish_simps:
  "fst (publish env mw r n t s) = (if 0 \<le> mw \<and> \<not> timed_lock_acquired env then REGION_NONE else r)"
  "monitor s \<noteq> None \<Longrightarrow> monitor (snd (publish env mw r n t s)) = Some \<lparr>region = n, timestamp = t\<rparr>"
  "regions (snd (publish env mw r n t s)) = regions s"
  "trace (snd (publish env mw r n t s)) =
     trace s @ (if 0 \<le> mw \<and> \<not> timed_lock_acquired env
                then [Warn_LockTimeout mw, Monitor_Removed, Monitor_Created \<lparr>region = REGION_NONE, timestamp = 0\<rparr>]
                else [])"
  by (auto simp: publish_def Let_def Monitor_remove_def Monitor_construct_simps)

lemma retire_simps:
  "monitor (retire r s) = monitor s"
  "r' \<noteq> r \<Longrightarrow> regions (retire r s) r' = regions s r'"
  "regions (retire REGION_NONE s) = regions s"
  "trace (retire REGION_NONE s) = trace s"
  "r \<noteq> REGION_NONE \<Longrightarrow> regions s r \<noteq> None \<Longrightarrow> regions (retire r s) r = None"
  "r \<noteq> REGION_NONE \<Longrightarrow> regions s r \<noteq> None \<Longrightarrow>
     trace (retire r s) = trace s @ [Region_Opened r, Region_Removed r, Region_WaitForDetach r]"
  by (auto simp: retire_def Let_def RegionExists_def makeSharedMemory_open_def SharedMemory_Remove_def WaitForDetach_def)


lemma Monitor_notify_all_simps [simp]:
  "monitor (Monitor_notify_all s) = monitor s"
  "regions (Monitor_notify_all s) = regions s"
  "trace (Monitor_notify_all s) = trace s @ [Monitor_NotifyAll]"
  by (simp_all add: Monitor_notify_all_def)

lemma before_lock_simps:
  "monitor (before_lock env layout m s) = Some (Monitor_data s)"
  "r \<noteq> next_region_of (region (Monitor_data s)) \<Longrightarrow> regions (before_lock env layout m s) r = regions s r"
  "\<exists>evs. trace (before_lock env layout m s) = trace s @ evs
         \<and> (\<forall>r. r \<noteq> next_region_of (region (Monitor_data s)) \<longrightarrow>
                Region_Opened r \<notin> set evs \<and> Region_Removed r \<notin> set evs \<and> Region_WaitForDetach r \<notin> set evs)"
proof -
  let ?n = "next_region_of (region (Monitor_data s))"
  show "monitor (before_lock env layout m s) = Some (Monitor_data s)"
    by (simp add: before_lock_def Let_def write_region_simps makeSharedMemory_create_simps
        remove_stale_simps Run_prepare_simps)
  show "r \<noteq> ?n \<Longrightarrow> regions (before_lock env layout m s) r = regions s r"
    by (simp add: before_lock_def Let_def write_region_simps makeSharedMemory_create_simps
        remove_stale_simps Run_prepare_simps)
  obtain e1 where e1: "trace (Run_prepare env s) = trace s @ e1"
    "\<forall>r. Region_Opened r \<notin> set e1 \<and> Region_Removed r \<notin> set e1 \<and> Region_WaitForDetach r \<notin> set e1"
    using Run_prepare_simps(3)[of env s] by blast
  obtain e2 where e2: "trace (remove_stale ?n (Run_prepare env s)) = trace (Run_prepare env s) @ e2"
    "\<forall>r. r \<noteq> ?n \<longrightarrow> Region_Opened r \<notin> set e2 \<and> Region_Removed r \<notin> set e2 \<and> Region_WaitForDetach r \<notin> set e2"
    using remove_stale_simps(3)[of ?n "Run_prepare env s"] by blast
  have "trace (before_lock env layout m s)
          = trace s @ (e1 @ e2 @ [Region_Created ?n (sizeof_DataLayout (env_abi env) + GetSizeOfLayout layout)])"
    by (simp add: before_lock_def Let_def write_region_simps makeSharedMemory_create_simps e1(1) e2(1))
  moreover have "\<forall>r. r \<noteq> ?n \<longrightarrow>
       Region_Opened r \<notin> set (e1 @ e2 @ [Region_Created ?n (sizeof_DataLayout (env_abi env) + GetSizeOfLayout layout)])
     \<and> Region_Removed r \<notin> set (e1 @ e2 @ [Region_Created ?n (sizeof_DataLayout (env_abi env) + GetSizeOfLayout layout)])
     \<and> Region_WaitForDetach r \<notin> set (e1 @ e2 @ [Region_Created ?n (sizeof_DataLayout (env_abi env) + GetSizeOfLayout layout)])"
    using e1(2) e2(2) by simp
  ultimately show "\<exists>evs. trace (before_lock env layout m s) = trace s @ evs
         \<and> (\<forall>r. r \<noteq> ?n \<longrightarrow>
                Region_Opened r \<notin> set evs \<and> Region_Removed r \<notin> set evs \<and> Region_WaitForDetach r \<notin> set evs)"
    by blast
qed

lemma Run_success:
  assumes "PopulateLayout (env_abi env) (env_inputs env) DataLayout_init = Inr layout"
    and "PopulateData (env_inputs env) layout
           (region_address env + sizeof_DataLayout (env_abi env)) zero_memory = Inr m"
  shows "Run env max_wait s =
           Inr (EXIT_SUCCESS,
                retire (fst (after_lock env max_wait layout m s))
                  (Monitor_notify_all (snd (after_lock env max_wait layout m s))))"
  using assms
  by (simp add: Run_def Let_def after_lock_def before_lock_def Monitor_data_Run_prepare split_beta)

lemma Run_InrE:
  assumes "Run env max_wait s = Inr (rc, s')"
  obtains layout m where
    "PopulateLayout (env_abi env) (env_inputs env) DataLayout_init = Inr layout"
    "PopulateData (env_inputs env) layout
           (region_address env + sizeof_DataLayout (env_abi env)) zero_memory = Inr m"
    "rc = EXIT_SUCCESS"
    "s' = retire (fst (after_lock env max_wait layout m s))
                  (Monitor_notify_all (snd (after_lock env max_wait layout m s)))"
proof -
  from assms obtain layout where l: "PopulateLayout (env_abi env) (env_inputs env) DataLayout_init = Inr layout"
    by (cases "PopulateLayout (env_abi env) (env_inputs env) DataLayout_init")
       (simp_all add: Run_def Let_def)
  with assms obtain m where m: "PopulateData (env_inputs env) layout
           (region_address env + sizeof_DataLayout (env_abi env)) zero_memory = Inr m"
    by (cases "PopulateData (env_inputs env) layout
           (region_address env + sizeof_DataLayout (env_abi env)) zero_memory")
       (simp_all add: Run_def Let_def)
  from assms Run_success[OF l m, of max_wait s] that[OF l m] show ?thesis
    by simp
qed

lemma Run_monitor:
  assumes "Run env max_wait s = Inr (rc, s')"
  shows "monitor s' = Some \<lparr>region = next_region_of (region (Monitor_data s)),
                            timestamp = timestamp (Monitor_data s) + 1\<rparr>"
  using assms
  by (elim Run_InrE) (simp add: retire_simps after_lock_def publish_simps before_lock_simps)

lemma minimal_inputs_layout: "\<exists>layout. PopulateLayout example_abi minimal_inputs DataLayout_init = Inr layout"
  using PopulateLayout_succeeds[of example_abi minimal_inputs DataLayout_init]
    minimal_inputs_reads_ok(1)[of "sizing_reads minimal_inputs"]
  by (simp add: minimal_inputs_def)

lemma minimal_inputs_data: "\<exists>m. PopulateData minimal_inputs layout p zero_memory = Inr m"
  using PopulateData_succeeds[of minimal_inputs layout p zero_memory]
    minimal_inputs_reads_ok(1)[of "populate_reads minimal_inputs"]
  by (simp add: minimal_inputs_def)

lemma example_run_succeeds:
  assumes "env_abi env = example_abi" and "env_inputs env = minimal_inputs"
  shows "\<exists>s'. Run env max_wait s = Inr (EXIT_SUCCESS, s')"
proof -
  obtain layout where l: "PopulateLayout (env_abi env) (env_inputs env) DataLayout_init = Inr layout"
    using minimal_inputs_layout assms by auto
  obtain m where m: "PopulateData (env_inputs env) layout
           (region_address env + sizeof_DataLayout (env_abi env)) zero_memory = Inr m"
    using minimal_inputs_data assms by metis
  from Run_success[OF l m] show ?thesis by blast
qed

lemma example_run_monitor:
  assumes "env_abi env = example_abi" and "env_inputs env = minimal_inputs"
  shows "monitor_after (Run env max_wait s)
           = Some \<lparr>region = next_region_of (region (Monitor_data s)),
                   timestamp = timestamp (Monitor_data s) + 1\<rparr>"
proof -
  obtain s' where "Run env max_wait s = Inr (EXIT_SUCCESS, s')"
    using example_run_succeeds[OF assms] by blast
  then show ?thesis
    using Run_monitor[of env max_wait s EXIT_SUCCESS s'] by (simp add: monitor_after_def)
qed

text \<open>
  C1 (as amended). Every run that returns success, from a monitor holding \<open>{r, t}\<close> (the
  initial \<open>{REGION_NONE, 0}\<close> when there was none), leaves the monitor holding
  \<open>REGION_1\<close> if \<open>r\<close> was \<open>REGION_2\<close> or \<open>REGION_NONE\<close> and \<open>REGION_2\<close> otherwise,
  with timestamp \<open>t + 1\<close> in 32-bit arithmetic. So the region differs from \<open>r\<close> unless
  \<open>r\<close> was \<open>REGION_NONE\<close>, and the timestamp is strictly greater unless \<open>t\<close> was
  \<open>2^32 - 1\<close>.
\<close>

theorem Run_publishes_next_region:
  assumes "Run env max_wait s = Inr (rc, s')"
  shows "monitor s' =
           Some \<lparr>region = (if region (Monitor_data s) = REGION_2 \<or> region (Monitor_data s) = REGION_NONE
                           then REGION_1 else REGION_2),
                 timestamp = timestamp (Monitor_data s) + 1\<rparr>
         \<and> (region (Monitor_data s) \<noteq> REGION_NONE \<longrightarrow> region (Monitor_data s') \<noteq> region (Monitor_data s))
         \<and> (timestamp (Monitor_data s) \<noteq> 0xFFFFFFFF \<longrightarrow>
              timestamp (Monitor_data s) < timestamp (Monitor_data s'))"
proof -
  have m: "monitor s' = Some \<lparr>region = next_region_of (region (Monitor_data s)),
                            timestamp = timestamp (Monitor_data s) + 1\<rparr>"
    using assms by (rule Run_monitor)
  then have d: "Monitor_data s' = \<lparr>region = next_region_of (region (Monitor_data s)),
                            timestamp = timestamp (Monitor_data s) + 1\<rparr>"
    by (simp add: Monitor_data_def)
  have "timestamp (Monitor_data s) < timestamp (Monitor_data s) + 1"
    if "timestamp (Monitor_data s) \<noteq> 0xFFFFFFFF"
  proof -
    have "(- 1 :: 32 word) = 0xFFFFFFFF"
      by simp
    with that have "timestamp (Monitor_data s) \<noteq> - 1"
      by (simp only:) simp
    then have "\<not> timestamp (Monitor_data s) + 1 \<le> timestamp (Monitor_data s)"
      by (simp add: inc_less_eq_self_iff_eq)
    then show ?thesis
      by simp
  qed
  with m d show ?thesis
    by (simp add: next_region_of_neq) (simp add: next_region_of_def)
qed

theorem Run_publishes_next_region_witness:
  "\<exists>s'. Run example_env (- 1) (live_system REGION_1 5) = Inr (EXIT_SUCCESS, s')
        \<and> monitor s' = Some \<lparr>region = REGION_2, timestamp = 6\<rparr>"
proof -
  obtain s' where r: "Run example_env (- 1) (live_system REGION_1 5) = Inr (EXIT_SUCCESS, s')"
    using example_run_succeeds[of example_env "- 1" "live_system REGION_1 5"]
    by (auto simp: example_env_def)
  from Run_publishes_next_region[OF r] have "monitor s' = Some \<lparr>region = REGION_2, timestamp = 6\<rparr>"
    by (simp add: live_system_def Monitor_data_def)
  with r show ?thesis by blast
qed

text \<open>
  C1 as stated fails at the largest timestamp: the \<open>unsigned\<close> addition wraps to 0.
\<close>

theorem Run_timestamp_wraps_counterexample:
  "monitor (live_system REGION_1 0xFFFFFFFF) = Some \<lparr>region = REGION_1, timestamp = 0xFFFFFFFF\<rparr>
   \<and> monitor_after (Run example_env (- 1) (live_system REGION_1 0xFFFFFFFF))
       = Some \<lparr>region = REGION_2, timestamp = 0\<rparr>
   \<and> \<not> (0xFFFFFFFF :: 32 word) < 0"
  by (simp add: example_run_monitor example_env_def)
     (simp add: live_system_def Monitor_data_def next_region_of_def)




text \<open>
  C10. In a run that returns success: on the timeout path the locked section sets the
  in-use region variable to \<open>REGION_NONE\<close>, the region that was in use is as it was before
  the run, and the run neither opens it, nor marks it for removal, nor waits on it. On the
  other path, when a region was in use and exists, the run ends by opening it, removing it
  and waiting for its clients to detach, and the region is gone afterwards.
\<close>

theorem Run_timeout_leaves_old_region:
  assumes "Run env max_wait s = Inr (rc, s')"
  shows "(0 \<le> max_wait \<and> \<not> timed_lock_acquired env \<longrightarrow>
            fst (publish env max_wait in_use next_region next_timestamp s0) = REGION_NONE
            \<and> regions s' (region (Monitor_data s)) = regions s (region (Monitor_data s))
            \<and> (\<exists>evs. trace s' = trace s @ evs
                  \<and> Region_Opened (region (Monitor_data s)) \<notin> set evs
                  \<and> Region_Removed (region (Monitor_data s)) \<notin> set evs
                  \<and> Region_WaitForDetach (region (Monitor_data s)) \<notin> set evs))
       \<and> (\<not> (0 \<le> max_wait \<and> \<not> timed_lock_acquired env)
            \<and> region (Monitor_data s) \<noteq> REGION_NONE
            \<and> regions s (region (Monitor_data s)) \<noteq> None \<longrightarrow>
            regions s' (region (Monitor_data s)) = None
            \<and> (\<exists>evs. trace s' = trace s @ evs @
                  [Region_Opened (region (Monitor_data s)), Region_Removed (region (Monitor_data s)),
                   Region_WaitForDetach (region (Monitor_data s))]))"
  using assms
proof (rule Run_InrE)
  fix layout m
  let ?r = "region (Monitor_data s)"
  let ?A = "after_lock env max_wait layout m s"
  assume s': "s' = retire (fst ?A) (Monitor_notify_all (snd ?A))"
  obtain evs where evs: "trace (before_lock env layout m s) = trace s @ evs"
    and quiet: "\<forall>r. r \<noteq> next_region_of ?r \<longrightarrow>
                Region_Opened r \<notin> set evs \<and> Region_Removed r \<notin> set evs \<and> Region_WaitForDetach r \<notin> set evs"
    using before_lock_simps(3)[of env layout m s] by blast
  show ?thesis
  proof (intro conjI impI)
    assume t: "0 \<le> max_wait \<and> \<not> timed_lock_acquired env"
    then show "fst (publish env max_wait in_use next_region next_timestamp s0) = REGION_NONE"
      by (simp add: publish_simps)
    from t have none: "fst ?A = REGION_NONE"
      by (simp add: after_lock_def publish_simps)
    show "regions s' ?r = regions s ?r"
    proof (cases "?r = next_region_of ?r")
      case True
      then show ?thesis
        using next_region_of_neq[of ?r] next_region_of_not_none[of ?r] by metis
    next
      case False
      have "regions s' ?r = regions (Monitor_notify_all (snd ?A)) ?r"
        by (simp only: s' none retire_simps(3))
      also have "\<dots> = regions s ?r"
        using False by (simp add: after_lock_def publish_simps before_lock_simps)
      finally show ?thesis .
    qed
    let ?evs = "evs @ [Warn_LockTimeout max_wait, Monitor_Removed,
                  Monitor_Created \<lparr>region = REGION_NONE, timestamp = 0\<rparr>, Monitor_NotifyAll]"
    have "trace s' = trace s @ ?evs"
      using t by (simp add: s' none retire_simps after_lock_def publish_simps evs)
    moreover have "Region_Opened ?r \<notin> set ?evs \<and> Region_Removed ?r \<notin> set ?evs
                   \<and> Region_WaitForDetach ?r \<notin> set ?evs"
    proof (cases "?r = REGION_NONE")
      case True
      have "\<forall>r. r \<noteq> REGION_1 \<longrightarrow>
                Region_Opened r \<notin> set evs \<and> Region_Removed r \<notin> set evs \<and> Region_WaitForDetach r \<notin> set evs"
        using quiet by (simp add: True next_region_of_def)
      then show ?thesis
        by (simp add: True)
    next
      case False
      then have "?r \<noteq> next_region_of ?r"
        using next_region_of_neq[of ?r] by simp
      with quiet show ?thesis
        by simp
    qed
    ultimately show "\<exists>evs. trace s' = trace s @ evs
                  \<and> Region_Opened ?r \<notin> set evs \<and> Region_Removed ?r \<notin> set evs
                  \<and> Region_WaitForDetach ?r \<notin> set evs"
      by blast
  next
    assume h: "\<not> (0 \<le> max_wait \<and> \<not> timed_lock_acquired env) \<and> ?r \<noteq> REGION_NONE
               \<and> regions s ?r \<noteq> None"
    then have keep: "fst ?A = ?r"
      by (auto simp: after_lock_def publish_simps)
    from h have ne: "?r \<noteq> next_region_of ?r"
      using next_region_of_neq[of ?r] by simp
    then have ex: "regions (Monitor_notify_all (snd ?A)) ?r \<noteq> None"
      using h by (simp add: after_lock_def publish_simps before_lock_simps)
    from h ex show "regions s' ?r = None"
      by (simp add: s' keep retire_simps)
    have "trace s' = trace s @ (evs @ [Monitor_NotifyAll]) @
                  [Region_Opened ?r, Region_Removed ?r, Region_WaitForDetach ?r]"
      using h ex by (auto simp: s' keep retire_simps after_lock_def publish_simps evs)
    then show "\<exists>evs. trace s' = trace s @ evs @
                  [Region_Opened ?r, Region_Removed ?r, Region_WaitForDetach ?r]"
      by blast
  qed
qed

theorem Run_timeout_leaves_old_region_witness:
  "(\<exists>s'. Run stuck_env 2 (live_system REGION_1 5) = Inr (EXIT_SUCCESS, s')
        \<and> regions s' REGION_1 = regions (live_system REGION_1 5) REGION_1
        \<and> regions s' REGION_1 \<noteq> None)
   \<and> (\<exists>s'. Run example_env 2 (live_system REGION_1 5) = Inr (EXIT_SUCCESS, s')
        \<and> regions s' REGION_1 = None)"
proof -
  obtain s1 where r1: "Run stuck_env 2 (live_system REGION_1 5) = Inr (EXIT_SUCCESS, s1)"
    using example_run_succeeds[of stuck_env 2 "live_system REGION_1 5"]
    by (auto simp: stuck_env_def example_env_def)
  obtain s2 where r2: "Run example_env 2 (live_system REGION_1 5) = Inr (EXIT_SUCCESS, s2)"
    using example_run_succeeds[of example_env 2 "live_system REGION_1 5"]
    by (auto simp: example_env_def)
  have "regions s1 REGION_1 = regions (live_system REGION_1 5) REGION_1"
    using Run_timeout_leaves_old_region[OF r1]
    by (simp add: stuck_env_def live_system_def Monitor_data_def)
  moreover have "regions (live_system REGION_1 5) REGION_1 \<noteq> None"
    by (simp add: live_system_def)
  moreover have "regions s2 REGION_1 = None"
    using Run_timeout_leaves_old_region[OF r2]
    by (simp add: example_env_def live_system_def Monitor_data_def)
  ultimately show ?thesis
    using r1 r2 by auto
qed

section \<open>The populate pass on the minimal input files\<close>

lemma block_ptrs_append:
  "block_ptrs l p (xs @ [i]) =
     block_ptrs l p xs @ [align (entry_align (blocks l i)) (fold (skip_block l) xs p + sizeof_CANARY)]"
  by (induction xs arbitrary: p) (simp_all add: Let_def skip_block_def)

lemma block_ptrs_upt: "block_ptrs l p [0..<n] = map (GetAlignedBlockPtr l p) [0..<n]"
  by (induction n) (simp_all add: block_ptrs_append GetAlignedBlockPtr_def)

lemma GetAlignedBlockPtr_nth:
  "bid < n \<Longrightarrow> GetAlignedBlockPtr l p bid = block_ptrs l p [0..<n] ! bid"
  by (simp add: block_ptrs_upt)

lemma minimal_layout_sized:
  "PopulateLayout example_abi minimal_inputs DataLayout_init = Inr minimal_layout"
  using minimal_inputs_layout by (auto simp: minimal_layout_def)

lemmas sizing_eval = PopulateLayout_def layout_before_hsgr_def layout_after_hsgr_def
  layout_file_index_path_def layout_names_def layout_tls_def layout_edges_def layout_ebg_nodes_def
  layout_hsgr_def layout_ramIndex_def layout_properties_def layout_timestamp_def
  layout_turn_weight_penalties_def layout_turn_duration_penalties_def layout_nbg_nodes_def
  layout_geometry_def layout_datasource_names_def layout_icd_def layout_tld_def
  layout_maneuver_overrides_def layout_partition_def layout_cells_def
  layout_cell_metrics_def layout_mldgr_def set_edge_filters_def set_cell_metric_def
  SetBlock_def DataLayout_init_def NUM_METRICS_def plain_block_def read_block_def
  optional_block_def

lemma minimal_layout_table:
  "map (blocks minimal_layout) [0..<NUM_BLOCKS] = map (\<lambda>(T, n). make_block example_abi T n) minimal_blocks"
  by (simp add: minimal_layout_def sizing_eval minimal_inputs_def Let_def minimal_blocks_def
      upt_rec[of _ "numeral n" for n])

lemma minimal_blocks_length: "length minimal_blocks = NUM_BLOCKS"
  by (simp add: minimal_blocks_def)

lemma minimal_layout_blocks:
  assumes "i < NUM_BLOCKS"
  shows "blocks minimal_layout i = (case minimal_blocks ! i of (T, n) \<Rightarrow> make_block example_abi T n)"
proof -
  have "blocks minimal_layout i = map (blocks minimal_layout) [0..<NUM_BLOCKS] ! i"
    using assms by (simp del: NUM_BLOCKS_def)
  also have "\<dots> = (case minimal_blocks ! i of (T, n) \<Rightarrow> make_block example_abi T n)"
    unfolding minimal_layout_table using assms minimal_blocks_length by (simp del: NUM_BLOCKS_def)
  finally show ?thesis .
qed

lemma minimal_layout_ptrs:
  "block_ptrs minimal_layout minimal_base [0..<NUM_BLOCKS] = map (\<lambda>off. minimal_base + off) minimal_offsets"
  by (simp add: minimal_layout_blocks minimal_blocks_def make_block_def example_abi_def
      minimal_base_def example_env_def minimal_offsets_def
      align_def sizeof_CANARY_def CANARY_def GetBlockSize_def Let_def upt_rec[of _ "numeral n" for n])

lemma minimal_offsets_length: "length minimal_offsets = NUM_BLOCKS"
  by (simp add: minimal_offsets_def)

lemma minimal_layout_ptr:
  assumes "bid < NUM_BLOCKS"
  shows "GetAlignedBlockPtr minimal_layout minimal_base bid = minimal_base + minimal_offsets ! bid"
  using assms minimal_offsets_length
  by (simp only: GetAlignedBlockPtr_nth[OF assms] minimal_layout_ptrs nth_map)

lemmas populate_eval = PopulateData_def populate_before_hsgr_def populate_hsgr_def
  populate_partition_def populate_cells_def populate_cell_metrics_def populate_mldgr_def
  populate_maneuver_overrides_def populate_file_index_path_def load_blocks_def
  get_block_ptrs_def read_into_def GetBlockPtr_write_def populate_mld_tables_def
  plain_block_def read_block_def optional_block_def

lemma minimal_base_value: "minimal_base = 139637976729888"
  by (simp add: minimal_base_def example_env_def example_abi_def)

lemma minimal_layout_ptr_value:
  "bid < NUM_BLOCKS \<Longrightarrow>
     GetAlignedBlockPtr minimal_layout 139637976729888 bid = 139637976729888 + minimal_offsets ! bid"
  using minimal_layout_ptr[of bid] by (simp only: minimal_base_value)

lemmas minimal_eval = minimal_layout_ptr_value minimal_layout_blocks
      minimal_blocks_def make_block_def example_abi_def minimal_offsets_def
      minimal_inputs_def GetBlockSize_def sizeof_CANARY_def CANARY_def
      zero_memory_def minimal_base_value

lemma unat_minus_1_64: "unat (- 1 :: 64 word) = 18446744073709551615"
  by (simp add: unsigned_minus_1_eq_mask mask_eq_exp_minus_1)

lemma copy_bytes_apply:
  "length cs < 2 ^ 64 \<Longrightarrow>
     copy_bytes cs p m a = (if unat (a - p) < length cs then cs ! unat (a - p) else m a)"
proof (induction cs arbitrary: p m)
  case Nil
  show ?case by simp
next
  case (Cons c cs)
  then have len: "length cs < 2 ^ 64 - 1" and len': "length cs < 2 ^ 64"
    by simp_all
  have step: "copy_bytes cs (p + 1) (m(p := c)) a =
            (if unat (a - (p + 1)) < length cs then cs ! unat (a - (p + 1)) else (m(p := c)) a)"
    by (rule Cons.IH[OF len'])
  show ?case
  proof (cases "a = p")
    case True
    from step have "copy_bytes cs (p + 1) (m(p := c)) p =
            (if unat (p - (p + 1)) < length cs then cs ! unat (p - (p + 1)) else (m(p := c)) p)"
      unfolding True .
    moreover have "p - (p + 1) = - 1"
      by simp
    moreover have "\<not> unat (- 1 :: 64 word) < length cs"
      using len unat_minus_1_64 by simp
    ultimately have "copy_bytes cs (p + 1) (m(p := c)) p = c"
      by (simp only: if_False fun_upd_same)
    with True show ?thesis
      by simp
  next
    case False
    then have nz: "a - p \<noteq> 0"
      by simp
    then have "unat (a - (p + 1)) = unat (a - p) - 1"
      using unat_minus_one[of "a - p"] by (simp add: algebra_simps)
    moreover have "0 < unat (a - p)"
      using nz by (simp add: unat_gt_0)
    ultimately show ?thesis
      using False by (auto simp: step nth_Cons')
  qed
qed

text \<open>
  C3 (the source departs from it). With the minimal input files (no CH graph, no
  multi-level files) and a zero-filled region, populate succeeds; the block of the CH
  checksum, which the branch for the absent CH graph file obtains, has both canaries, but
  the first CH edge filter block and the block of the multi-level level data, whose pointers
  the populate pass never obtains, have not, and verifying the edge filter block fails on
  its start canary.
\<close>

theorem PopulateData_absent_inputs_unstamped:
  "PopulateLayout example_abi minimal_inputs DataLayout_init = Inr minimal_layout
   \<and> (\<exists>m. PopulateData minimal_inputs minimal_layout minimal_base zero_memory = Inr m
       \<and> canaries_alive minimal_layout m minimal_base HSGR_CHECKSUM
       \<and> \<not> canaries_alive minimal_layout m minimal_base CH_EDGE_FILTER_0
       \<and> \<not> canaries_alive minimal_layout m minimal_base MLD_LEVEL_DATA
       \<and> GetBlockPtr_check minimal_layout m minimal_base CH_EDGE_FILTER_0
            = Inl (CanaryCorrupt CH_EDGE_FILTER_0 StartCanary))"
  by (simp add: minimal_layout_sized)
     (simp add: populate_eval Let_def minimal_eval canaries_alive_def GetBlockPtr_check_def
        copy_bytes_apply unat_minus_1_64 del: copy_bytes.simps)

section \<open>The canary tag\<close>

text \<open>
  C4 (as amended). The tag stamped before and after every block is the four ASCII
  characters O, S, R, M in this order (the project's initials).
\<close>

theorem canary_is_OSRM: "CANARY = ''OSRM'' \<and> sizeof_CANARY = 4"
  by (simp add: CANARY_def sizeof_CANARY_def)

text \<open>C4 as stated (O, R, S, M) does not hold of the tag in the source.\<close>

theorem canary_is_not_ORSM: "CANARY \<noteq> [CHR ''O'', CHR ''R'', CHR ''S'', CHR ''M'']"
  by (simp add: CANARY_def)


end
